theory Spec2Isabelle
  imports Main "HOL-Library.AList"
begin

section \<open>Tables, tensors and errors\<close>

text \<open>
  The module \<open>av2/torch/dataloaders/utils.py\<close> turns polars tables into the dataclasses
  \<open>Annotations\<close> and \<open>Lidar\<close>, exports them as dense tensors and looks a pose up by its
  timestamp. Scalars (floats, integers, strings) are kept abstract as a type variable
  \<open>'a\<close>: the functions below only move, stack and select them; the two places where
  numbers are computed (the dtype cast of \<open>Tensor.type\<close> and the quaternion conversions)
  are parameters.
\<close>

text \<open>The scalar kind a polars column declares (\<open>field.dtype\<close>).\<close>

datatype pl_dtype =
    Float32 | Float64
  | Int8 | Int16 | Int32 | Int64
  | UInt8 | UInt16 | UInt32 | UInt64
  | Boolean | Utf8 | Categorical

text \<open>A polars column: its declared kind and its values in row order.\<close>

datatype 'a series = Series (dtype: pl_dtype) (to_list: "'a list")

text \<open>
  A polars \<open>DataFrame\<close>: its columns by name, in column order. \<open>to_dict\<close> gives the
  same columns as a dictionary in that order (the names of a DataFrame are unique).
\<close>

type_synonym 'a dataframe = "(string \<times> 'a series) list"

definition to_dict :: "'a dataframe \<Rightarrow> (string \<times> 'a series) list" where
  "to_dict df = df"

text \<open>A tensor: its shape and its elements in row-major order.\<close>

datatype 'a tensor = Tensor (shape: "nat list") (data: "'a list")

definition wf_tensor :: "'a tensor \<Rightarrow> bool" where
  "wf_tensor t = (length (data t) = prod_list (shape t))"

text \<open>
  What an attribute of a container can hold: a tensor, a tuple of scalars, a polars
  column left as it came, or any other object (a bound method, the class, ...).
\<close>

datatype 'a attr =
    TensorV "'a tensor"
  | TupleV "'a list"
  | SeriesV "'a series"
  | Object

fun is_tensor :: "'a attr \<Rightarrow> bool" where
  "is_tensor (TensorV t) = True"
| "is_tensor _ = False"

fun the_tensor :: "'a attr \<Rightarrow> 'a tensor" where
  "the_tensor (TensorV t) = t"
| "the_tensor _ = Tensor [] []"

text \<open>The scalars an attribute holds, in order (what reading the field back gives).\<close>

fun values_of :: "'a attr \<Rightarrow> 'a list" where
  "values_of (TensorV t) = data t"
| "values_of (TupleV vs) = vs"
| "values_of (SeriesV s) = to_list s"
| "values_of Object = []"

text \<open>
  The exceptions the module's code can meet: a failed attribute lookup, the two
  \<open>TypeError\<close>s of a dataclass constructor called with keyword arguments (an unexpected
  keyword; required arguments that are missing), and the two failures of \<open>torch.stack\<close>
  (an element that is no tensor; an empty list or tensors of different sizes).
\<close>

datatype error =
    AttributeError string
  | UnexpectedKeyword string
  | MissingArguments "string list"
  | StackTypeError
  | StackRuntimeError

section \<open>The containers\<close>

record 'a annotations =
  tx_m :: "'a attr"
  ty_m :: "'a attr"
  tz_m :: "'a attr"
  length_m :: "'a attr"
  width_m :: "'a attr"
  height_m :: "'a attr"
  qw :: "'a attr"
  qx :: "'a attr"
  qy :: "'a attr"
  qz :: "'a attr"
  vx_m :: "'a attr"
  vy_m :: "'a attr"
  vz_m :: "'a attr"
  timestamp_ns :: "'a attr"
  num_interior_pts :: "'a attr"
  category :: "'a attr"
  track_uuid :: "'a attr"

record 'a lidar =
  x :: "'a attr"
  y :: "'a attr"
  z :: "'a attr"
  intensity :: "'a attr"
  laser_number :: "'a attr"
  offset_ns :: "'a attr"

text \<open>The declared fields of the two dataclasses, in declaration order.\<close>

definition annotations_fields :: "string list" where
  "annotations_fields =
     [''tx_m'', ''ty_m'', ''tz_m'', ''length_m'', ''width_m'', ''height_m'',
      ''qw'', ''qx'', ''qy'', ''qz'', ''vx_m'', ''vy_m'', ''vz_m'',
      ''timestamp_ns'', ''num_interior_pts'', ''category'', ''track_uuid'']"

definition lidar_fields :: "string list" where
  "lidar_fields = [''x'', ''y'', ''z'', ''intensity'', ''laser_number'', ''offset_ns'']"

text \<open>The instance dictionary of a container: each field with its value.\<close>

definition annotations_dict :: "'a annotations \<Rightarrow> (string \<times> 'a attr) list" where
  "annotations_dict a =
     [(''tx_m'', tx_m a), (''ty_m'', ty_m a), (''tz_m'', tz_m a),
      (''length_m'', length_m a), (''width_m'', width_m a), (''height_m'', height_m a),
      (''qw'', qw a), (''qx'', qx a), (''qy'', qy a), (''qz'', qz a),
      (''vx_m'', vx_m a), (''vy_m'', vy_m a), (''vz_m'', vz_m a),
      (''timestamp_ns'', timestamp_ns a), (''num_interior_pts'', num_interior_pts a),
      (''category'', category a), (''track_uuid'', track_uuid a)]"

definition lidar_dict :: "'a lidar \<Rightarrow> (string \<times> 'a attr) list" where
  "lidar_dict l =
     [(''x'', x l), (''y'', y l), (''z'', z l), (''intensity'', intensity l),
      (''laser_number'', laser_number l), (''offset_ns'', offset_ns l)]"

section \<open>Table-to-container adapter\<close>

text \<open>
  \<open>torch.as_tensor(field.to_numpy(writable=True))\<close>: a one-dimensional tensor with the
  column's values in order. \<open>tuple(field.to_list())\<close>: the values as a tuple.
\<close>

definition as_tensor_of_series :: "'a series \<Rightarrow> 'a attr" where
  "as_tensor_of_series field = TensorV (Tensor [length (to_list field)] (to_list field))"

definition tuple_of_series :: "'a series \<Rightarrow> 'a attr" where
  "tuple_of_series field = TupleV (to_list field)"

text \<open>
  The keyword call \<open>cls(**columns)\<close> of a dataclass whose fields are all required: the
  first keyword that is no field is refused, then the fields no keyword gives are
  reported together; otherwise each field takes the value of its keyword.
\<close>

definition check_keywords :: "string list \<Rightarrow> (string \<times> 'v) list \<Rightarrow> error option" where
  "check_keywords names columns =
     (case find (\<lambda>k. k \<notin> set names) (map fst columns) of
        Some k \<Rightarrow> Some (UnexpectedKeyword k)
      | None \<Rightarrow>
          (case filter (\<lambda>f. f \<notin> set (map fst columns)) names of
             [] \<Rightarrow> None
           | m # ms \<Rightarrow> Some (MissingArguments (m # ms))))"

definition keyword :: "(string \<times> 'a attr) list \<Rightarrow> string \<Rightarrow> 'a attr" where
  "keyword columns name = (case map_of columns name of Some v \<Rightarrow> v | None \<Rightarrow> Object)"

definition annotations_init :: "(string \<times> 'a attr) list \<Rightarrow> error + 'a annotations" where
  "annotations_init columns =
     (case check_keywords annotations_fields columns of
        Some e \<Rightarrow> Inl e
      | None \<Rightarrow> Inr \<lparr>
          tx_m = keyword columns ''tx_m'', ty_m = keyword columns ''ty_m'',
          tz_m = keyword columns ''tz_m'', length_m = keyword columns ''length_m'',
          width_m = keyword columns ''width_m'', height_m = keyword columns ''height_m'',
          qw = keyword columns ''qw'', qx = keyword columns ''qx'',
          qy = keyword columns ''qy'', qz = keyword columns ''qz'',
          vx_m = keyword columns ''vx_m'', vy_m = keyword columns ''vy_m'',
          vz_m = keyword columns ''vz_m'', timestamp_ns = keyword columns ''timestamp_ns'',
          num_interior_pts = keyword columns ''num_interior_pts'',
          category = keyword columns ''category'',
          track_uuid = keyword columns ''track_uuid'' \<rparr>)"

definition lidar_init :: "(string \<times> 'a attr) list \<Rightarrow> error + 'a lidar" where
  "lidar_init columns =
     (case check_keywords lidar_fields columns of
        Some e \<Rightarrow> Inl e
      | None \<Rightarrow> Inr \<lparr>
          x = keyword columns ''x'', y = keyword columns ''y'', z = keyword columns ''z'',
          intensity = keyword columns ''intensity'',
          laser_number = keyword columns ''laser_number'',
          offset_ns = keyword columns ''offset_ns'' \<rparr>)"

text \<open>
  \<open>Annotations.from_dataframe\<close>: an empty dictionary is filled column by column, a
  tensor for the kinds \<open>Float32\<close>, \<open>Float64\<close>, \<open>Int32\<close> and a tuple for every other
  kind, and handed to the constructor.
\<close>

definition annotations_convert :: "'a series \<Rightarrow> 'a attr" where
  "annotations_convert field =
     (if dtype field \<in> set [Float32, Float64, Int32] then as_tensor_of_series field
      else tuple_of_series field)"

definition annotations_from_dataframe :: "'a dataframe \<Rightarrow> error + 'a annotations" where
  "annotations_from_dataframe dataframe =
     annotations_init
       (fold (\<lambda>(field_name, field) columns.
                AList.update field_name (annotations_convert field) columns)
          (to_dict dataframe) [])"

text \<open>
  \<open>Lidar.from_dataframe\<close>: the dictionary of the table's own columns is updated in
  place, a tensor replacing each column of kind \<open>Float32\<close> or \<open>Int32\<close>; every other
  column stays the polars column it was.
\<close>

definition lidar_from_dataframe :: "'a dataframe \<Rightarrow> error + 'a lidar" where
  "lidar_from_dataframe dataframe =
     (let columns = map (\<lambda>(field_name, field). (field_name, SeriesV field)) (to_dict dataframe)
      in lidar_init
           (fold (\<lambda>(field_name, field) columns.
                    if dtype field \<in> set [Float32, Int32]
                    then AList.update field_name (as_tensor_of_series field) columns
                    else columns)
              (to_dict dataframe) columns))"

section \<open>Container-to-array exporter\<close>

datatype orientation_mode = QUATERNION_WXYZ | YAW

text \<open>The target kinds of \<open>Tensor.type\<close> (\<open>torch.dtype\<close>).\<close>

datatype torch_dtype =
    torch_float16 | torch_float32 | torch_float64
  | torch_int8 | torch_int16 | torch_int32 | torch_int64
  | torch_uint8 | torch_bool

definition DEFAULT_ANNOTATIONS_TENSOR_FIELDS :: "string list" where
  "DEFAULT_ANNOTATIONS_TENSOR_FIELDS =
     [''tx_m'', ''ty_m'', ''tz_m'', ''length_m'', ''width_m'', ''height_m'',
      ''qw'', ''qx'', ''qy'', ''qz'', ''vx_m'', ''vy_m'', ''vz_m'']"

definition DEFAULT_LIDAR_TENSOR_FIELDS :: "string list" where
  "DEFAULT_LIDAR_TENSOR_FIELDS = [''x'', ''y'', ''z'']"

text \<open>
  Python's \<open>list.insert(i, v)\<close> for \<open>i \<ge> 0\<close>: \<open>v\<close> goes before the element at index
  \<open>i\<close>, and at the end when the list has no such index.
\<close>

definition list_insert :: "nat \<Rightarrow> 'v \<Rightarrow> 'v list \<Rightarrow> 'v list" where
  "list_insert i v xs = take i xs @ v # drop i xs"

text \<open>
  A list comprehension whose elements may raise: the elements are evaluated in order and
  the first exception ends the evaluation.
\<close>

fun sequence :: "(error + 'v) list \<Rightarrow> error + 'v list" where
  "sequence [] = Inr []"
| "sequence (r # rs) =
     (case r of
        Inl e \<Rightarrow> Inl e
      | Inr v \<Rightarrow> (case sequence rs of Inl e \<Rightarrow> Inl e | Inr vs \<Rightarrow> Inr (v # vs)))"

text \<open>
  \<open>torch.stack(tensors, dim=-1)\<close>: every element must be a tensor (\<open>TypeError\<close>), the
  list must not be empty and all shapes must agree (\<open>RuntimeError\<close>); the result has one
  more axis, the last, along which element \<open>k\<close> of the list is the \<open>k\<close>-th entry.
\<close>

definition stack_tensors :: "'a tensor list \<Rightarrow> error + 'a tensor" where
  "stack_tensors ts =
     (case ts of
        [] \<Rightarrow> Inl StackRuntimeError
      | t # _ \<Rightarrow>
          if list_ex (\<lambda>u. shape u \<noteq> shape t) ts then Inl StackRuntimeError
          else Inr (Tensor (shape t @ [length ts])
                 (concat (map (\<lambda>r. map (\<lambda>u. data u ! r) ts) [0..<prod_list (shape t)]))))"

definition torch_stack :: "'a attr list \<Rightarrow> error + 'a tensor" where
  "torch_stack vs =
     (if list_all is_tensor vs then stack_tensors (map the_tensor vs) else Inl StackTypeError)"

text \<open>\<open>Tensor.type(dtype)\<close>: the same shape, each element cast.\<close>

definition tensor_type :: "(torch_dtype \<Rightarrow> 'a \<Rightarrow> 'a) \<Rightarrow> torch_dtype \<Rightarrow> 'a tensor \<Rightarrow> 'a tensor" where
  "tensor_type cast dt t = Tensor (shape t) (map (cast dt) (data t))"

text \<open>The rows of length \<open>k\<close> of row-major data, and indexing the last axis (\<open>t[..., j]\<close>).\<close>

fun chunks :: "nat \<Rightarrow> 'v list \<Rightarrow> 'v list list" where
  "chunks k xs = (if k = 0 \<or> xs = [] then [] else take k xs # chunks k (drop k xs))"

declare chunks.simps [simp del]

definition select_last :: "nat \<Rightarrow> 'a tensor \<Rightarrow> 'a tensor" where
  "select_last j t =
     Tensor (butlast (shape t)) (map (\<lambda>row. row ! j) (chunks (last (shape t)) (data t)))"

text \<open>
  Modelled from the spec: \<open>quat_to_yaw\<close> of \<open>av2/torch/dataloaders/conversions.py\<close>, which
  is not among the sources. The spec gives it as \<open>quaternion_to_yaw(quat[...,4]) -> angle[...]\<close>:
  the last axis holds one quaternion (w, x, y, z) and is replaced by its yaw angle. The
  conversion of one quaternion is the parameter \<open>q2y\<close>.
\<close>

definition quat_to_yaw :: "('a list \<Rightarrow> 'a) \<Rightarrow> 'a tensor \<Rightarrow> 'a tensor" where
  "quat_to_yaw q2y quat_wxyz =
     Tensor (butlast (shape quat_wxyz)) (map q2y (chunks 4 (data quat_wxyz)))"

text \<open>The two derived properties of \<open>Annotations\<close>.\<close>

definition quaternion :: "'a annotations \<Rightarrow> error + 'a tensor" where
  "quaternion self = torch_stack [qw self, qx self, qy self, qz self]"

definition yaw_radians :: "('a list \<Rightarrow> 'a) \<Rightarrow> 'a annotations \<Rightarrow> error + 'a attr" where
  "yaw_radians q2y self =
     (case quaternion self of Inl e \<Rightarrow> Inl e | Inr q \<Rightarrow> Inr (TensorV (quat_to_yaw q2y q)))"

text \<open>
  \<open>getattr(self, name)\<close>. The class gives the properties and the methods, the instance
  its fields; \<open>inh\<close> says which further names every instance has from the Python runtime
  and the dataclass decorator (\<open>__class__\<close>, \<open>__eq__\<close>, ...), none of them a tensor. Any
  other name raises \<open>AttributeError\<close>.
\<close>

definition annotations_getattr ::
  "('a list \<Rightarrow> 'a) \<Rightarrow> (string \<Rightarrow> bool) \<Rightarrow> 'a annotations \<Rightarrow> string \<Rightarrow> error + 'a attr" where
  "annotations_getattr q2y inh self name =
     (if name = ''quaternion'' then
        (case quaternion self of Inl e \<Rightarrow> Inl e | Inr q \<Rightarrow> Inr (TensorV q))
      else if name = ''yaw_radians'' then yaw_radians q2y self
      else case map_of (annotations_dict self) name of
             Some v \<Rightarrow> Inr v
           | None \<Rightarrow>
               if name \<in> set [''from_dataframe'', ''as_tensor''] \<or> inh name then Inr Object
               else Inl (AttributeError name))"

definition lidar_getattr :: "(string \<Rightarrow> bool) \<Rightarrow> 'a lidar \<Rightarrow> string \<Rightarrow> error + 'a attr" where
  "lidar_getattr inh self name =
     (case map_of (lidar_dict self) name of
        Some v \<Rightarrow> Inr v
      | None \<Rightarrow>
          if name \<in> set [''from_dataframe'', ''as_tensor''] \<or> inh name then Inr Object
          else Inl (AttributeError name))"

text \<open>The names \<open>getattr\<close> resolves on each container.\<close>

definition annotations_hasattr :: "(string \<Rightarrow> bool) \<Rightarrow> string \<Rightarrow> bool" where
  "annotations_hasattr inh name =
     (name \<in> set annotations_fields
      \<or> name \<in> set [''quaternion'', ''yaw_radians'', ''from_dataframe'', ''as_tensor'']
      \<or> inh name)"

definition lidar_hasattr :: "(string \<Rightarrow> bool) \<Rightarrow> string \<Rightarrow> bool" where
  "lidar_hasattr inh name =
     (name \<in> set lidar_fields \<or> name \<in> set [''from_dataframe'', ''as_tensor''] \<or> inh name)"

text \<open>
  \<open>Annotations.as_tensor\<close>. In \<open>YAW\<close> mode the ordering is rewritten first; the field
  \<open>yaw\<close> is the property \<open>yaw_radians\<close>, every other name is looked up with \<open>getattr\<close>.
\<close>

definition yaw_ordering :: "string list \<Rightarrow> string list" where
  "yaw_ordering field_ordering =
     list_insert 6 ''yaw''
       (filter (\<lambda>field_name. field_name \<notin> set [''qw'', ''qx'', ''qy'', ''qz'']) field_ordering)"

definition annotations_field ::
  "('a list \<Rightarrow> 'a) \<Rightarrow> (string \<Rightarrow> bool) \<Rightarrow> 'a annotations \<Rightarrow> string \<Rightarrow> error + 'a attr" where
  "annotations_field q2y inh self field_name =
     (if field_name \<noteq> ''yaw'' then annotations_getattr q2y inh self field_name
      else yaw_radians q2y self)"

definition annotations_as_tensor ::
  "('a list \<Rightarrow> 'a) \<Rightarrow> (torch_dtype \<Rightarrow> 'a \<Rightarrow> 'a) \<Rightarrow> (string \<Rightarrow> bool) \<Rightarrow>
   'a annotations \<Rightarrow> string list \<Rightarrow> orientation_mode \<Rightarrow> torch_dtype \<Rightarrow> error + 'a tensor" where
  "annotations_as_tensor q2y cast inh self field_ordering orientation_mode dt =
     (let field_ordering =
            (if orientation_mode = YAW then yaw_ordering field_ordering else field_ordering)
      in case sequence (map (annotations_field q2y inh self) field_ordering) of
           Inl e \<Rightarrow> Inl e
         | Inr fs \<Rightarrow>
             (case torch_stack fs of
                Inl e \<Rightarrow> Inl e
              | Inr t \<Rightarrow> Inr (tensor_type cast dt t)))"

text \<open>\<open>Lidar.as_tensor\<close>: the ordering as given, each name looked up with \<open>getattr\<close>.\<close>

definition lidar_as_tensor ::
  "(torch_dtype \<Rightarrow> 'a \<Rightarrow> 'a) \<Rightarrow> (string \<Rightarrow> bool) \<Rightarrow>
   'a lidar \<Rightarrow> string list \<Rightarrow> torch_dtype \<Rightarrow> error + 'a tensor" where
  "lidar_as_tensor cast inh self field_ordering dt =
     (case sequence (map (lidar_getattr inh self) field_ordering) of
        Inl e \<Rightarrow> Inl e
      | Inr fs \<Rightarrow>
          (case torch_stack fs of
             Inl e \<Rightarrow> Inl e
           | Inr t \<Rightarrow> Inr (tensor_type cast dt t)))"

text \<open>The ordering a call exports: rewritten in \<open>YAW\<close> mode, as given otherwise.\<close>

definition effective_ordering :: "orientation_mode \<Rightarrow> string list \<Rightarrow> string list" where
  "effective_ordering orientation_mode field_ordering =
     (if orientation_mode = YAW then yaw_ordering field_ordering else field_ordering)"

text \<open>
  Well-formed containers: every tensor a field holds has as many elements as its shape
  says. A container has \<open>N\<close> rows when every field holds \<open>N\<close> entries, a tensor field
  as a one-dimensional tensor (what the adapter builds from a table of \<open>N\<close> rows).
\<close>

fun wf_attr :: "'a attr \<Rightarrow> bool" where
  "wf_attr (TensorV t) = wf_tensor t"
| "wf_attr _ = True"

definition wf_annotations :: "'a annotations \<Rightarrow> bool" where
  "wf_annotations self = list_all (\<lambda>(n, v). wf_attr v) (annotations_dict self)"

definition wf_lidar :: "'a lidar \<Rightarrow> bool" where
  "wf_lidar self = list_all (\<lambda>(n, v). wf_attr v) (lidar_dict self)"

fun attr_rows :: "nat \<Rightarrow> 'a attr \<Rightarrow> bool" where
  "attr_rows N (TensorV t) = (shape t = [N] \<and> length (data t) = N)"
| "attr_rows N (TupleV vs) = (length vs = N)"
| "attr_rows N (SeriesV s) = (length (to_list s) = N)"
| "attr_rows N Object = False"

definition annotations_rows :: "nat \<Rightarrow> 'a annotations \<Rightarrow> bool" where
  "annotations_rows N self = list_all (\<lambda>(n, v). attr_rows N v) (annotations_dict self)"

definition lidar_rows :: "nat \<Rightarrow> 'a lidar \<Rightarrow> bool" where
  "lidar_rows N self = list_all (\<lambda>(n, v). attr_rows N v) (lidar_dict self)"

text \<open>
  Deriving the yaw from an exported array: the columns \<open>iw, ix, iy, iz\<close> of the array are
  stacked into quaternions and converted with \<open>quat_to_yaw\<close>.
\<close>

definition yaw_from_exported ::
  "('a list \<Rightarrow> 'a) \<Rightarrow> 'a tensor \<Rightarrow> nat \<Rightarrow> nat \<Rightarrow> nat \<Rightarrow> nat \<Rightarrow> error + 'a tensor" where
  "yaw_from_exported q2y t iw ix iy iz =
     (case stack_tensors [select_last iw t, select_last ix t, select_last iy t, select_last iz t] of
        Inl e \<Rightarrow> Inl e
      | Inr q \<Rightarrow> Inr (quat_to_yaw q2y q))"

section \<open>Pose query\<close>

text \<open>A numpy array: its shape and its elements in row-major order.\<close>

datatype 'a ndarray = NDArray (dims: "nat list") (elems: "'a list")

text \<open>
  What \<open>query_SE3\<close> can raise: polars does not find a column the query names, or one of
  the two collaborators (\<open>quat_to_mat\<close>, the \<open>SE3\<close> constructor) raises an error of its
  own kind \<open>'e\<close>. The function has no \<open>raise\<close> statement of its own.
\<close>

datatype 'e pose_error = ColumnNotFoundError string | Raised 'e

text \<open>\<open>poses.filter(pl.col(name) == v)\<close>: the rows whose entry in column \<open>name\<close> equals \<open>v\<close>.\<close>

definition keep_rows :: "'a list \<Rightarrow> 'a \<Rightarrow> 'a series \<Rightarrow> 'a series" where
  "keep_rows keys v c =
     Series (dtype c) (map snd (filter (\<lambda>(k, u). k = v) (zip keys (to_list c))))"

definition filter_eq :: "string \<Rightarrow> 'a \<Rightarrow> 'a dataframe \<Rightarrow> 'e pose_error + 'a dataframe" where
  "filter_eq name v df =
     (case map_of df name of
        None \<Rightarrow> Inl (ColumnNotFoundError name)
      | Some s \<Rightarrow> Inr (map (\<lambda>(n, c). (n, keep_rows (to_list s) v c)) df))"

text \<open>\<open>pose.select(names)\<close>: the named columns in the order asked for.\<close>

fun select :: "string list \<Rightarrow> 'a dataframe \<Rightarrow> 'e pose_error + 'a dataframe" where
  "select [] df = Inr []"
| "select (n # ns) df =
     (case map_of df n of
        None \<Rightarrow> Inl (ColumnNotFoundError n)
      | Some c \<Rightarrow> (case select ns df of Inl e \<Rightarrow> Inl e | Inr cs \<Rightarrow> Inr ((n, c) # cs)))"

text \<open>
  \<open>DataFrame.to_numpy()\<close>: a two-dimensional array, one row per row of the table and one
  column per column. \<open>ndarray.squeeze()\<close> drops every axis of length one.
\<close>

definition height :: "'a dataframe \<Rightarrow> nat" where
  "height df = (case df of [] \<Rightarrow> 0 | (n, c) # _ \<Rightarrow> length (to_list c))"

definition to_numpy :: "'a dataframe \<Rightarrow> 'a ndarray" where
  "to_numpy df =
     NDArray [height df, length df]
       (concat (map (\<lambda>r. map (\<lambda>(n, c). to_list c ! r) df) [0..<height df]))"

definition squeeze :: "'a ndarray \<Rightarrow> 'a ndarray" where
  "squeeze arr = NDArray (filter (\<lambda>d. d \<noteq> 1) (dims arr)) (elems arr)"

text \<open>
  \<open>query_SE3\<close>. The conversion \<open>quat_to_mat\<close> (\<open>av2/geometry/geometry.py\<close>) and the
  constructor \<open>SE3\<close> (\<open>av2/geometry/se3.py\<close>) are not among the sources: they are the
  parameters \<open>quat_to_mat\<close> and \<open>SE3\<close>, each free to return or to raise on any array.
  The argument \<open>quat_to_mat(quat)\<close> is evaluated before the constructor is called.
\<close>

definition query_SE3 ::
  "('a ndarray \<Rightarrow> 'e + 'a ndarray) \<Rightarrow> ('a ndarray \<Rightarrow> 'a ndarray \<Rightarrow> 'e + 't) \<Rightarrow>
   'a dataframe \<Rightarrow> 'a \<Rightarrow> 'e pose_error + 't" where
  "query_SE3 quat_to_mat SE3 poses ts =
     (case filter_eq ''timestamp_ns'' ts poses of
        Inl e \<Rightarrow> Inl e
      | Inr pose \<Rightarrow>
          (case select [''qw'', ''qx'', ''qy'', ''qz''] pose of
             Inl e \<Rightarrow> Inl e
           | Inr quat_frame \<Rightarrow>
               (case select [''tx_m'', ''ty_m'', ''tz_m''] pose of
                  Inl e \<Rightarrow> Inl e
                | Inr translation_frame \<Rightarrow>
                    (let quat = squeeze (to_numpy quat_frame);
                         translation = squeeze (to_numpy translation_frame)
                     in case quat_to_mat quat of
                          Inl e \<Rightarrow> Inl (Raised e)
                        | Inr rotation \<Rightarrow>
                            (case SE3 rotation translation of
                               Inl e \<Rightarrow> Inl (Raised e)
                             | Inr T \<Rightarrow> Inr T)))))"

text \<open>
  Direct construction of the transform from a quaternion array and a translation array:
  \<open>SE3(rotation=quat_to_mat(quat), translation=translation)\<close>.
\<close>

definition direct_SE3 ::
  "('a ndarray \<Rightarrow> 'e + 'a ndarray) \<Rightarrow> ('a ndarray \<Rightarrow> 'a ndarray \<Rightarrow> 'e + 't) \<Rightarrow>
   'a ndarray \<Rightarrow> 'a ndarray \<Rightarrow> 'e pose_error + 't" where
  "direct_SE3 quat_to_mat SE3 quat translation =
     (case quat_to_mat quat of
        Inl e \<Rightarrow> Inl (Raised e)
      | Inr rotation \<Rightarrow>
          (case SE3 rotation translation of
             Inl e \<Rightarrow> Inl (Raised e)
           | Inr T \<Rightarrow> Inr T))"

text \<open>The rows of a table whose entry in column \<open>name\<close> equals \<open>v\<close>, by index.\<close>

definition matching_rows :: "string \<Rightarrow> 'a \<Rightarrow> 'a dataframe \<Rightarrow> nat list" where
  "matching_rows name v df =
     (case map_of df name of
        None \<Rightarrow> []
      | Some s \<Rightarrow> filter (\<lambda>i. to_list s ! i = v) [0..<length (to_list s)])"

text \<open>The entry of column \<open>name\<close> in row \<open>i\<close>.\<close>

definition cell :: "'a dataframe \<Rightarrow> string \<Rightarrow> nat \<Rightarrow> 'a option" where
  "cell df name i =
     (case map_of df name of
        None \<Rightarrow> None
      | Some c \<Rightarrow> if i < length (to_list c) then Some (to_list c ! i) else None)"

text \<open>
  A well-formed poses table: the eight columns the query reads are present and every
  column has the same number of rows.
\<close>

definition POSE_COLUMNS :: "string list" where
  "POSE_COLUMNS = [''timestamp_ns'', ''qw'', ''qx'', ''qy'', ''qz'', ''tx_m'', ''ty_m'', ''tz_m'']"

definition wf_poses :: "'a dataframe \<Rightarrow> bool" where
  "wf_poses df =
     (list_all (\<lambda>n. map_of df n \<noteq> None) POSE_COLUMNS
      \<and> list_all (\<lambda>(n, c). length (to_list c) = height df) df)"

section \<open>Example inputs\<close>

text \<open>
  Concrete scalars for the examples below: a number or a text label. The conversion of
  one quaternion, the cast and the inherited names are fixed to simple stand-ins, so
  that the examples can be evaluated.
\<close>

datatype scalar = Num int | Str string

fun example_q2y :: "scalar list \<Rightarrow> scalar" where
  "example_q2y [Num w, Num i, Num j, Num k] = Num (2 * (w * k + i * j))"
| "example_q2y _ = Num 0"

definition example_cast :: "torch_dtype \<Rightarrow> scalar \<Rightarrow> scalar" where
  "example_cast dt v = v"

definition example_inherited :: "string \<Rightarrow> bool" where
  "example_inherited name = (name \<in> set [''__class__'', ''__dict__'', ''__eq__'', ''__init__''])"

text \<open>A table of two annotations with the declared columns, and of two lidar points.\<close>

definition annotations_table :: "scalar dataframe" where
  "annotations_table =
     [(''tx_m'', Series Float64 [Num 10, Num 20]), (''ty_m'', Series Float64 [Num 11, Num 21]),
      (''tz_m'', Series Float64 [Num 12, Num 22]),
      (''length_m'', Series Float64 [Num 4, Num 5]), (''width_m'', Series Float64 [Num 2, Num 3]),
      (''height_m'', Series Float64 [Num 1, Num 2]),
      (''qw'', Series Float64 [Num 1, Num 2]), (''qx'', Series Float64 [Num 0, Num 1]),
      (''qy'', Series Float64 [Num 0, Num 3]), (''qz'', Series Float64 [Num 1, Num 1]),
      (''vx_m'', Series Float64 [Num 7, Num 8]), (''vy_m'', Series Float64 [Num 0, Num 1]),
      (''vz_m'', Series Float64 [Num 0, Num 0]),
      (''timestamp_ns'', Series Int64 [Num 315, Num 315]),
      (''num_interior_pts'', Series Int64 [Num 40, Num 50]),
      (''category'', Series Utf8 [Str ''BUS'', Str ''PEDESTRIAN'']),
      (''track_uuid'', Series Utf8 [Str ''a1'', Str ''b2''])]"

definition annotations_example :: "scalar annotations" where
  "annotations_example = \<lparr>
     tx_m = TensorV (Tensor [2] [Num 10, Num 20]), ty_m = TensorV (Tensor [2] [Num 11, Num 21]),
     tz_m = TensorV (Tensor [2] [Num 12, Num 22]),
     length_m = TensorV (Tensor [2] [Num 4, Num 5]), width_m = TensorV (Tensor [2] [Num 2, Num 3]),
     height_m = TensorV (Tensor [2] [Num 1, Num 2]),
     qw = TensorV (Tensor [2] [Num 1, Num 2]), qx = TensorV (Tensor [2] [Num 0, Num 1]),
     qy = TensorV (Tensor [2] [Num 0, Num 3]), qz = TensorV (Tensor [2] [Num 1, Num 1]),
     vx_m = TensorV (Tensor [2] [Num 7, Num 8]), vy_m = TensorV (Tensor [2] [Num 0, Num 1]),
     vz_m = TensorV (Tensor [2] [Num 0, Num 0]),
     timestamp_ns = TupleV [Num 315, Num 315],
     num_interior_pts = TupleV [Num 40, Num 50],
     category = TupleV [Str ''BUS'', Str ''PEDESTRIAN''],
     track_uuid = TupleV [Str ''a1'', Str ''b2''] \<rparr>"

definition lidar_table :: "scalar dataframe" where
  "lidar_table =
     [(''x'', Series Float64 [Num 1, Num 2]), (''y'', Series Float32 [Num 3, Num 4]),
      (''z'', Series Float32 [Num 5, Num 6]), (''intensity'', Series UInt8 [Num 7, Num 8]),
      (''laser_number'', Series UInt8 [Num 9, Num 10]),
      (''offset_ns'', Series Int32 [Num 11, Num 12])]"

definition lidar_example :: "scalar lidar" where
  "lidar_example = \<lparr>
     x = TensorV (Tensor [2] [Num 1, Num 2]), y = TensorV (Tensor [2] [Num 3, Num 4]),
     z = TensorV (Tensor [2] [Num 5, Num 6]), intensity = TensorV (Tensor [2] [Num 7, Num 8]),
     laser_number = TensorV (Tensor [2] [Num 9, Num 10]),
     offset_ns = TensorV (Tensor [2] [Num 11, Num 12]) \<rparr>"

text \<open>
  The same table of annotations with the quaternion columns stored as 64-bit integers,
  and the container the adapter builds from it: the four quaternion fields are tuples.
\<close>

definition int_quaternion_table :: "scalar dataframe" where
  "int_quaternion_table =
     AList.update ''qw'' (Series Int64 [Num 1, Num 2])
       (AList.update ''qx'' (Series Int64 [Num 0, Num 1])
         (AList.update ''qy'' (Series Int64 [Num 0, Num 3])
           (AList.update ''qz'' (Series Int64 [Num 1, Num 1]) annotations_table)))"

definition int_quaternion_example :: "scalar annotations" where
  "int_quaternion_example = annotations_example \<lparr>
     qw := TupleV [Num 1, Num 2], qx := TupleV [Num 0, Num 1],
     qy := TupleV [Num 0, Num 3], qz := TupleV [Num 1, Num 1] \<rparr>"

text \<open>
  A second reading of the scalars, for a cast that loses digits: a number counts
  thousandths, so \<open>Num 600\<close> is 0.6. The cast to an integer dtype truncates towards
  zero; the cast to a floating-point dtype is taken as exact. The stand-in for the
  conversion of one quaternion gives the yaw in thousandths of a radian at the two
  quaternions of the example, \<open>(0.6, 0, 0, 0.8)\<close> with yaw 1.855 and \<open>(1, 0, 0, 0)\<close> with
  yaw 0, and 0 elsewhere (also at the truncated quaternion \<open>(0, 0, 0, 0)\<close>).
\<close>

fun truncating_cast :: "torch_dtype \<Rightarrow> scalar \<Rightarrow> scalar" where
  "truncating_cast dt (Num v) =
     (if dt \<in> set [torch_float16, torch_float32, torch_float64] then Num v
      else if 0 \<le> v then Num (1000 * (v div 1000))
      else Num (- (1000 * ((- v) div 1000))))"
| "truncating_cast dt (Str s) = Str s"

definition milliradian_yaw :: "scalar list \<Rightarrow> scalar" where
  "milliradian_yaw q =
     (if q = [Num 600, Num 0, Num 0, Num 800] then Num 1855 else Num 0)"

definition rotated_example :: "scalar annotations" where
  "rotated_example = annotations_example \<lparr>
     qw := TensorV (Tensor [2] [Num 600, Num 1000]), qx := TensorV (Tensor [2] [Num 0, Num 0]),
     qy := TensorV (Tensor [2] [Num 0, Num 0]), qz := TensorV (Tensor [2] [Num 800, Num 0]) \<rparr>"

text \<open>
  A poses table with one row per timestamp, and two stand-ins for the collaborators of
  \<open>query_SE3\<close>: one pair accepts every array (the transform is the pair of the rotation
  and the translation it was given), the other refuses every array that has not the
  shape of one quaternion, one rotation or one translation.
\<close>

definition poses_table :: "int dataframe" where
  "poses_table =
     [(''timestamp_ns'', Series Int64 [100, 200]),
      (''qw'', Series Float64 [1, 0]), (''qx'', Series Float64 [0, 0]),
      (''qy'', Series Float64 [0, 0]), (''qz'', Series Float64 [0, 1]),
      (''tx_m'', Series Float64 [5, 8]), (''ty_m'', Series Float64 [6, 9]),
      (''tz_m'', Series Float64 [7, 10])]"

definition lenient_quat_to_mat :: "int ndarray \<Rightarrow> string + int ndarray" where
  "lenient_quat_to_mat quat = Inr quat"

definition lenient_SE3 :: "int ndarray \<Rightarrow> int ndarray \<Rightarrow> string + int ndarray \<times> int ndarray" where
  "lenient_SE3 rotation translation = Inr (rotation, translation)"

definition strict_quat_to_mat :: "int ndarray \<Rightarrow> string + int ndarray" where
  "strict_quat_to_mat quat = (if dims quat = [4] then Inr quat else Inl ''ValueError'')"

definition strict_SE3 :: "int ndarray \<Rightarrow> int ndarray \<Rightarrow> string + int ndarray \<times> int ndarray" where
  "strict_SE3 rotation translation =
     (if dims translation = [3] then Inr (rotation, translation) else Inl ''ValueError'')"

section \<open>The adapter: keyword check and conversion\<close>

lemma fold_update_keys:
  "fst ` set (fold (\<lambda>(n, f) cols. AList.update n (g f) cols) df acc) = fst ` set acc \<union> fst ` set df"
proof (induction df arbitrary: acc)
  case Nil
  show ?case by simp
next
  case (Cons p df)
  obtain m f where p: "p = (m, f)" by (cases p)
  have "fst ` set (fold (\<lambda>(n, f) cols. AList.update n (g f) cols) (p # df) acc)
        = fst ` set (AList.update m (g f) acc) \<union> fst ` set df"
    using Cons.IH by (simp add: p)
  also have "\<dots> = fst ` set acc \<union> fst ` set (p # df)"
    by (simp add: AList.dom_update p)
  finally show ?case .
qed

lemma find_SomeD: "find P xs = Some v \<Longrightarrow> v \<in> set xs \<and> P v"
  by (induction xs) (auto split: if_splits)

lemma check_keywords_None:
  "check_keywords names columns = None \<longleftrightarrow> set (map fst columns) = set names"
proof (cases "find (\<lambda>k. k \<notin> set names) (map fst columns)")
  case None
  then have sub: "set (map fst columns) \<subseteq> set names"
    by (auto simp: find_None_iff)
  have "(filter (\<lambda>f. f \<notin> set (map fst columns)) names = []) = (set names \<subseteq> set (map fst columns))"
    by (auto simp: filter_empty_conv)
  with None sub show ?thesis
    by (auto simp: check_keywords_def split: list.splits)
next
  case (Some k)
  then have "k \<in> set (map fst columns)" "k \<notin> set names"
    using find_SomeD[OF Some] by auto
  then have "set (map fst columns) \<noteq> set names" by blast
  with Some show ?thesis by (simp add: check_keywords_def)
qed

lemma check_keywords_Some:
  assumes "check_keywords names columns = Some e"
  shows "(\<exists>k. e = UnexpectedKeyword k \<and> k \<in> set (map fst columns) \<and> k \<notin> set names)
   \<or> (\<exists>ms. e = MissingArguments ms \<and> ms \<noteq> [] \<and> set ms = set names - set (map fst columns))"
proof (cases "find (\<lambda>k. k \<notin> set names) (map fst columns)")
  case (Some k)
  with assms have "e = UnexpectedKeyword k" by (simp add: check_keywords_def)
  with find_SomeD[OF Some] show ?thesis by blast
next
  case None
  define ms where "ms = filter (\<lambda>f. f \<notin> set (map fst columns)) names"
  have "set ms = set names - set (map fst columns)" by (auto simp: ms_def)
  moreover have "e = MissingArguments ms \<and> ms \<noteq> []"
    using assms None by (auto simp: check_keywords_def ms_def split: list.splits)
  ultimately show ?thesis by blast
qed


lemma fold_update_map_of:
  "distinct (map fst df) \<Longrightarrow> (n, c) \<in> set df \<Longrightarrow>
   map_of (fold (\<lambda>(n, f) cols. if P f then AList.update n (g f) cols else cols) df acc) n
     = (if P c then Some (g c) else map_of acc n)"
proof (induction df arbitrary: acc)
  case Nil
  then show ?case by simp
next
  case (Cons p df)
  obtain m f where p: "p = (m, f)" by (cases p)
  show ?case
  proof (cases "(n, c) \<in> set df")
    case True
    then have "n \<in> fst ` set df" by force
    then have "m \<noteq> n" using Cons.prems(1) by (auto simp: p)
    with True Cons show ?thesis by (simp add: p AList.update_conv')
  next
    case False
    with Cons.prems have eq: "m = n" "f = c" and notin: "n \<notin> fst ` set df"
      by (auto simp: p)
    have "map_of (fold (\<lambda>(n, f) cols. if P f then AList.update n (g f) cols else cols) df acc') n
            = map_of acc' n" for acc'
      using notin by (induction df arbitrary: acc') (auto simp: AList.update_conv')
    then show ?thesis by (simp add: p eq AList.update_conv')
  qed
qed

lemma fold_cond_update_keys:
  "fst ` set df \<subseteq> fst ` set acc \<Longrightarrow>
   fst ` set (fold (\<lambda>(n, f) cols. if P f then AList.update n (g f) cols else cols) df acc)
     = fst ` set acc"
proof (induction df arbitrary: acc)
  case Nil
  show ?case by simp
next
  case (Cons p df)
  obtain m f where p: "p = (m, f)" by (cases p)
  from Cons.prems have m: "m \<in> fst ` set acc" and sub: "fst ` set df \<subseteq> fst ` set acc"
    by (auto simp: p)
  have keys: "fst ` set (AList.update m (g f) acc) = fst ` set acc"
    using m by (auto simp: AList.dom_update)
  show ?case
    using Cons.IH[of "AList.update m (g f) acc"] Cons.IH[of acc] sub keys
    by (simp add: p)
qed

lemma map_of_map_values:
  "distinct (map fst df) \<Longrightarrow> (n, c) \<in> set df \<Longrightarrow>
   map_of (map (\<lambda>(n, f). (n, h f)) df) n = Some (h c)"
  by (induction df) force+

lemma annotations_columns_keys:
  "set (map fst (fold (\<lambda>(field_name, field) columns.
       AList.update field_name (annotations_convert field) columns) (to_dict df) [])) = set (map fst df)"
  using fold_update_keys[of annotations_convert df "[]"] by (simp add: to_dict_def)

lemma lidar_columns_keys:
  "set (map fst (fold (\<lambda>(field_name, field) columns.
        if dtype field \<in> set [Float32, Int32]
        then AList.update field_name (as_tensor_of_series field) columns else columns)
      (to_dict df) (map (\<lambda>(field_name, field). (field_name, SeriesV field)) (to_dict df))))
   = set (map fst df)"
proof -
  have k0: "fst ` set (map (\<lambda>(field_name, field). (field_name, SeriesV field)) df) = fst ` set df"
    by (induction df) auto
  then have "fst ` set df \<subseteq> fst ` set (map (\<lambda>(field_name, field). (field_name, SeriesV field)) df)"
    by simp
  from fold_cond_update_keys[OF this, of "\<lambda>f. dtype f \<in> set [Float32, Int32]" as_tensor_of_series]
  have e1: "fst ` set (fold (\<lambda>(field_name, field) columns.
        if dtype field \<in> set [Float32, Int32]
        then AList.update field_name (as_tensor_of_series field) columns else columns)
      df (map (\<lambda>(field_name, field). (field_name, SeriesV field)) df)) = fst ` set df"
    by (rule trans[OF _ k0])
  show ?thesis using e1 by (simp only: to_dict_def set_map)
qed

text \<open>
  Claim C7. A table whose column names are not exactly the declared fields of the
  container is never turned into a container: \<open>from_dataframe\<close> fails in the
  constructor call, and the error names either a column that is no field (an unexpected
  keyword) or the fields that no column gives (the missing arguments). This holds for
  \<open>Annotations\<close> and for \<open>Lidar\<close>.
\<close>

theorem from_dataframe_mismatch:
  "(set (map fst df) \<noteq> set annotations_fields \<longrightarrow>
      (\<exists>k. annotations_from_dataframe df = Inl (UnexpectedKeyword k)
           \<and> k \<in> set (map fst df) \<and> k \<notin> set annotations_fields)
    \<or> (\<exists>ms. annotations_from_dataframe df = Inl (MissingArguments ms)
           \<and> ms \<noteq> [] \<and> set ms = set annotations_fields - set (map fst df)))
   \<and> (set (map fst df) \<noteq> set lidar_fields \<longrightarrow>
      (\<exists>k. lidar_from_dataframe df = Inl (UnexpectedKeyword k)
           \<and> k \<in> set (map fst df) \<and> k \<notin> set lidar_fields)
    \<or> (\<exists>ms. lidar_from_dataframe df = Inl (MissingArguments ms)
           \<and> ms \<noteq> [] \<and> set ms = set lidar_fields - set (map fst df)))"
proof (intro conjI impI)
  define cols where "cols = fold (\<lambda>(field_name, field) columns.
       AList.update field_name (annotations_convert field) columns) (to_dict df) ([] :: (string \<times> 'a attr) list)"
  assume "set (map fst df) \<noteq> set annotations_fields"
  then have "check_keywords annotations_fields cols \<noteq> None"
    unfolding cols_def check_keywords_None annotations_columns_keys .
  then obtain e where e: "check_keywords annotations_fields cols = Some e" by blast
  then have res: "annotations_from_dataframe df = Inl e"
    by (simp add: annotations_from_dataframe_def annotations_init_def cols_def)
  from check_keywords_Some[OF e] show
    "(\<exists>k. annotations_from_dataframe df = Inl (UnexpectedKeyword k)
           \<and> k \<in> set (map fst df) \<and> k \<notin> set annotations_fields)
    \<or> (\<exists>ms. annotations_from_dataframe df = Inl (MissingArguments ms)
           \<and> ms \<noteq> [] \<and> set ms = set annotations_fields - set (map fst df))"
    unfolding res cols_def annotations_columns_keys by blast
next
  define cols where "cols = fold (\<lambda>(field_name, field) columns.
        if dtype field \<in> set [Float32, Int32]
        then AList.update field_name (as_tensor_of_series field) columns else columns)
      (to_dict df) (map (\<lambda>(field_name, field). (field_name, SeriesV field)) (to_dict df))"
  assume "set (map fst df) \<noteq> set lidar_fields"
  then have "check_keywords lidar_fields cols \<noteq> None"
    unfolding cols_def check_keywords_None lidar_columns_keys .
  then obtain e where e: "check_keywords lidar_fields cols = Some e" by blast
  then have res: "lidar_from_dataframe df = Inl e"
    by (simp add: lidar_from_dataframe_def lidar_init_def cols_def Let_def)
  from check_keywords_Some[OF e] show
    "(\<exists>k. lidar_from_dataframe df = Inl (UnexpectedKeyword k)
           \<and> k \<in> set (map fst df) \<and> k \<notin> set lidar_fields)
    \<or> (\<exists>ms. lidar_from_dataframe df = Inl (MissingArguments ms)
           \<and> ms \<noteq> [] \<and> set ms = set lidar_fields - set (map fst df))"
    unfolding res cols_def lidar_columns_keys by blast
qed


theorem from_dataframe_mismatch_witness:
  "set (map fst [(''speed'', Series Float32 [1::int])]) \<noteq> set annotations_fields
   \<and> annotations_from_dataframe [(''speed'', Series Float32 [1::int])] = Inl (UnexpectedKeyword ''speed'')
   \<and> set (map fst [(''z'', Series Float32 [1::int]), (''y'', Series Float32 [2])]) \<noteq> set lidar_fields
   \<and> lidar_from_dataframe [(''z'', Series Float32 [1::int]), (''y'', Series Float32 [2])]
       = Inl (MissingArguments [''x'', ''intensity'', ''laser_number'', ''offset_ns''])"
proof -
  have "''speed'' \<notin> set annotations_fields"
    by (simp add: annotations_fields_def)
  then have h1: "set (map fst [(''speed'', Series Float32 [1::int])]) \<noteq> set annotations_fields"
    by auto
  have "''x'' \<in> set lidar_fields"
    by (simp add: lidar_fields_def)
  moreover have "''x'' \<notin> set (map fst [(''z'', Series Float32 [1::int]), (''y'', Series Float32 [2])])"
    by simp
  ultimately have h2: "set (map fst [(''z'', Series Float32 [1::int]), (''y'', Series Float32 [2])])
      \<noteq> set lidar_fields"
    by blast
  have r1: "annotations_from_dataframe [(''speed'', Series Float32 [1::int])]
      = Inl (UnexpectedKeyword ''speed'')"
    using h1 from_dataframe_mismatch[of "[(''speed'', Series Float32 [1::int])]"]
    by (simp add: annotations_from_dataframe_def annotations_init_def check_keywords_def
        to_dict_def annotations_fields_def)
  have r2: "lidar_from_dataframe [(''z'', Series Float32 [1::int]), (''y'', Series Float32 [2])]
       = Inl (MissingArguments [''x'', ''intensity'', ''laser_number'', ''offset_ns''])"
    by (simp add: lidar_from_dataframe_def lidar_init_def check_keywords_def
        to_dict_def lidar_fields_def)
  from h1 h2 r1 r2 show ?thesis by blast
qed

lemma annotations_getattr_init:
  assumes "annotations_init cols = Inr a" and "n \<in> set annotations_fields"
  shows "annotations_getattr q2y inh a n = Inr (keyword cols n)"
proof -
  from assms(1) have a: "a = \<lparr>
          tx_m = keyword cols ''tx_m'', ty_m = keyword cols ''ty_m'',
          tz_m = keyword cols ''tz_m'', length_m = keyword cols ''length_m'',
          width_m = keyword cols ''width_m'', height_m = keyword cols ''height_m'',
          qw = keyword cols ''qw'', qx = keyword cols ''qx'',
          qy = keyword cols ''qy'', qz = keyword cols ''qz'',
          vx_m = keyword cols ''vx_m'', vy_m = keyword cols ''vy_m'',
          vz_m = keyword cols ''vz_m'', timestamp_ns = keyword cols ''timestamp_ns'',
          num_interior_pts = keyword cols ''num_interior_pts'',
          category = keyword cols ''category'',
          track_uuid = keyword cols ''track_uuid'' \<rparr>"
    by (simp add: annotations_init_def split: option.splits)
  from assms(2) show ?thesis
    unfolding annotations_fields_def
    by (auto simp: a annotations_getattr_def annotations_dict_def)
qed

lemma lidar_getattr_init:
  assumes "lidar_init cols = Inr l" and "n \<in> set lidar_fields"
  shows "lidar_getattr inh l n = Inr (keyword cols n)"
proof -
  from assms(1) have l: "l = \<lparr>
          x = keyword cols ''x'', y = keyword cols ''y'', z = keyword cols ''z'',
          intensity = keyword cols ''intensity'',
          laser_number = keyword cols ''laser_number'',
          offset_ns = keyword cols ''offset_ns'' \<rparr>"
    by (simp add: lidar_init_def split: option.splits)
  from assms(2) show ?thesis
    unfolding lidar_fields_def
    by (auto simp: l lidar_getattr_def lidar_dict_def)
qed


lemma annotations_from_dataframe_field:
  assumes ok: "annotations_from_dataframe df = Inr a"
    and dist: "distinct (map fst df)" and mem: "(n, c) \<in> set df"
  shows "annotations_getattr q2y inh a n = Inr (annotations_convert c)"
proof -
  define cols where "cols = fold (\<lambda>(field_name, field) columns.
       AList.update field_name (annotations_convert field) columns) (to_dict df) ([] :: (string \<times> 'a attr) list)"
  from ok have init: "annotations_init cols = Inr a"
    by (simp add: annotations_from_dataframe_def cols_def)
  then have "check_keywords annotations_fields cols = None"
    by (simp add: annotations_init_def split: option.splits)
  then have "set (map fst df) = set annotations_fields"
    unfolding cols_def check_keywords_None annotations_columns_keys .
  moreover have "n \<in> set (map fst df)" using mem by force
  ultimately have n: "n \<in> set annotations_fields" by simp
  have "map_of cols n = Some (annotations_convert c)"
    using fold_update_map_of[OF dist mem, of "\<lambda>f. True" annotations_convert "[]"]
    by (simp add: cols_def to_dict_def)
  then have "keyword cols n = annotations_convert c" by (simp add: keyword_def)
  with annotations_getattr_init[OF init n] show ?thesis by simp
qed

lemma lidar_from_dataframe_field:
  assumes ok: "lidar_from_dataframe df = Inr l"
    and dist: "distinct (map fst df)" and mem: "(n, c) \<in> set df"
  shows "lidar_getattr inh l n =
     Inr (if dtype c \<in> set [Float32, Int32] then as_tensor_of_series c else SeriesV c)"
proof -
  define cols where "cols = fold (\<lambda>(field_name, field) columns.
        if dtype field \<in> set [Float32, Int32]
        then AList.update field_name (as_tensor_of_series field) columns else columns)
      (to_dict df) (map (\<lambda>(field_name, field). (field_name, SeriesV field)) (to_dict df))"
  from ok have init: "lidar_init cols = Inr l"
    by (simp add: lidar_from_dataframe_def cols_def Let_def)
  then have "check_keywords lidar_fields cols = None"
    by (simp add: lidar_init_def split: option.splits)
  then have "set (map fst df) = set lidar_fields"
    unfolding cols_def check_keywords_None lidar_columns_keys .
  moreover have "n \<in> set (map fst df)" using mem by force
  ultimately have n: "n \<in> set lidar_fields" by simp
  have "map_of cols n =
      (if dtype c \<in> set [Float32, Int32] then Some (as_tensor_of_series c)
       else map_of (map (\<lambda>(field_name, field). (field_name, SeriesV field)) df) n)"
    unfolding cols_def to_dict_def
    by (rule fold_update_map_of[OF dist mem])
  then have "keyword cols n =
      (if dtype c \<in> set [Float32, Int32] then as_tensor_of_series c else SeriesV c)"
    using map_of_map_values[OF dist mem, of SeriesV] by (simp add: keyword_def)
  with lidar_getattr_init[OF init n] show ?thesis by simp
qed

text \<open>
  What \<open>Annotations.from_dataframe\<close> builds from a table it accepts: reading a field back
  gives a one-dimensional tensor with the column's values in order when the column's
  kind is \<open>Float32\<close>, \<open>Float64\<close> or \<open>Int32\<close>, and the tuple of the column's values
  otherwise.
\<close>

lemma annotations_from_dataframe_roundtrip:
  assumes "annotations_from_dataframe df = Inr a" and "distinct (map fst df)"
    and "(n, c) \<in> set df"
  shows "annotations_getattr q2y inh a n
     = Inr (if dtype c \<in> {Float32, Float64, Int32}
            then TensorV (Tensor [length (to_list c)] (to_list c))
            else TupleV (to_list c))"
  using annotations_from_dataframe_field[OF assms, of q2y inh]
  by (simp add: annotations_convert_def as_tensor_of_series_def tuple_of_series_def)

text \<open>
  Claim C1. The claim holds of \<open>Annotations.from_dataframe\<close> and fails of
  \<open>Lidar.from_dataframe\<close>, whose test of the kind leaves \<open>Float64\<close> out and which has no
  branch for the other kinds. On a table of two lidar points whose column \<open>x\<close> is
  \<open>Float64\<close> and whose columns \<open>intensity\<close> and \<open>laser_number\<close> are \<open>UInt8\<close>, these three
  fields of the container are the polars columns themselves, neither tensors nor tuples,
  although every field of \<open>Lidar\<close> is declared a tensor; \<open>Lidar.as_tensor\<close> with its
  default ordering then fails in \<open>torch.stack\<close> on the field \<open>x\<close>.
\<close>

theorem lidar_from_dataframe_keeps_series:
  "lidar_from_dataframe lidar_table =
     Inr \<lparr> x = SeriesV (Series Float64 [Num 1, Num 2]), y = TensorV (Tensor [2] [Num 3, Num 4]),
           z = TensorV (Tensor [2] [Num 5, Num 6]),
           intensity = SeriesV (Series UInt8 [Num 7, Num 8]),
           laser_number = SeriesV (Series UInt8 [Num 9, Num 10]),
           offset_ns = TensorV (Tensor [2] [Num 11, Num 12]) \<rparr>
   \<and> lidar_as_tensor example_cast example_inherited
        \<lparr> x = SeriesV (Series Float64 [Num 1, Num 2]), y = TensorV (Tensor [2] [Num 3, Num 4]),
          z = TensorV (Tensor [2] [Num 5, Num 6]),
          intensity = SeriesV (Series UInt8 [Num 7, Num 8]),
          laser_number = SeriesV (Series UInt8 [Num 9, Num 10]),
          offset_ns = TensorV (Tensor [2] [Num 11, Num 12]) \<rparr>
        DEFAULT_LIDAR_TENSOR_FIELDS torch_float32 = Inl StackTypeError"
proof -
  have a: "lidar_from_dataframe lidar_table =
     Inr \<lparr> x = SeriesV (Series Float64 [Num 1, Num 2]), y = TensorV (Tensor [2] [Num 3, Num 4]),
           z = TensorV (Tensor [2] [Num 5, Num 6]),
           intensity = SeriesV (Series UInt8 [Num 7, Num 8]),
           laser_number = SeriesV (Series UInt8 [Num 9, Num 10]),
           offset_ns = TensorV (Tensor [2] [Num 11, Num 12]) \<rparr>"
    by (simp add: lidar_table_def lidar_from_dataframe_def lidar_init_def check_keywords_def
        to_dict_def lidar_fields_def keyword_def as_tensor_of_series_def)
  have b: "lidar_as_tensor example_cast example_inherited
        \<lparr> x = SeriesV (Series Float64 [Num 1, Num 2]), y = TensorV (Tensor [2] [Num 3, Num 4]),
          z = TensorV (Tensor [2] [Num 5, Num 6]),
          intensity = SeriesV (Series UInt8 [Num 7, Num 8]),
          laser_number = SeriesV (Series UInt8 [Num 9, Num 10]),
          offset_ns = TensorV (Tensor [2] [Num 11, Num 12]) \<rparr>
        DEFAULT_LIDAR_TENSOR_FIELDS torch_float32 = Inl StackTypeError"
    by code_simp
  from a b show ?thesis by blast
qed

section \<open>The pose query on one row and on none\<close>

lemma zip_as_map:
  "length cs = length ks \<Longrightarrow> zip ks cs = map (\<lambda>j. (ks ! j, cs ! j)) [0..<length ks]"
  by (rule nth_equalityI) auto

lemma filter_zip_nth:
  assumes "length cs = length ks"
  shows "map snd (filter (\<lambda>(k, u). k = v) (zip ks cs))
     = map (\<lambda>j. cs ! j) (filter (\<lambda>j. ks ! j = v) [0..<length ks])"
  unfolding zip_as_map[OF assms] by (simp add: filter_map o_def)

lemma map_upt_rows:
  "(\<And>r. r < length rows \<Longrightarrow> F r = G (rows ! r)) \<Longrightarrow> map F [0..<length rows] = map G rows"
  by (rule nth_equalityI) auto

lemma map_of_keep_rows:
  "map_of (map (\<lambda>(n, c). (n, keep_rows ks v c)) df) name
     = map_option (keep_rows ks v) (map_of df name)"
  by (induction df) auto

lemma keep_rows_matching:
  assumes "length (to_list c) = length ks"
  shows "to_list (keep_rows ks v c)
     = map (\<lambda>j. to_list c ! j) (filter (\<lambda>j. ks ! j = v) [0..<length ks])"
  by (simp add: keep_rows_def filter_zip_nth[OF assms])

lemma wf_poses_column:
  assumes "wf_poses df" and "name \<in> set POSE_COLUMNS"
  shows "\<exists>c. map_of df name = Some c \<and> length (to_list c) = height df"
proof -
  from assms have "map_of df name \<noteq> None"
    by (auto simp: wf_poses_def list_all_iff)
  then obtain c where c: "map_of df name = Some c" by blast
  then have "(name, c) \<in> set df" by (rule map_of_SomeD)
  with assms(1) have "length (to_list c) = height df"
    by (auto simp: wf_poses_def list_all_iff)
  with c show ?thesis by blast
qed

lemma query_SE3_rows:
  assumes wf: "wf_poses poses"
    and ts: "map_of poses ''timestamp_ns'' = Some s"
  shows "\<exists>cw ci cj ck ca cb cc.
      map_of poses ''qw'' = Some cw \<and> map_of poses ''qx'' = Some ci
    \<and> map_of poses ''qy'' = Some cj \<and> map_of poses ''qz'' = Some ck
    \<and> map_of poses ''tx_m'' = Some ca \<and> map_of poses ''ty_m'' = Some cb
    \<and> map_of poses ''tz_m'' = Some cc
    \<and> query_SE3 (quat_to_mat :: 'a ndarray \<Rightarrow> 'e + 'a ndarray) SE3 poses t =
        direct_SE3 quat_to_mat SE3
          (squeeze (NDArray [length (matching_rows ''timestamp_ns'' t poses), 4]
             (concat (map (\<lambda>j. [to_list cw ! j, to_list ci ! j, to_list cj ! j, to_list ck ! j])
                (matching_rows ''timestamp_ns'' t poses)))))
          (squeeze (NDArray [length (matching_rows ''timestamp_ns'' t poses), 3]
             (concat (map (\<lambda>j. [to_list ca ! j, to_list cb ! j, to_list cc ! j])
                (matching_rows ''timestamp_ns'' t poses)))))"
proof -
  from wf ts have lens: "length (to_list s) = height poses"
    using wf_poses_column[OF wf, of "''timestamp_ns''"] by (auto simp: POSE_COLUMNS_def)
  obtain cw where cw: "map_of poses ''qw'' = Some cw" "length (to_list cw) = length (to_list s)"
    using wf_poses_column[OF wf, of "''qw''"] lens by (auto simp: POSE_COLUMNS_def)
  obtain ci where ci: "map_of poses ''qx'' = Some ci" "length (to_list ci) = length (to_list s)"
    using wf_poses_column[OF wf, of "''qx''"] lens by (auto simp: POSE_COLUMNS_def)
  obtain cj where cj: "map_of poses ''qy'' = Some cj" "length (to_list cj) = length (to_list s)"
    using wf_poses_column[OF wf, of "''qy''"] lens by (auto simp: POSE_COLUMNS_def)
  obtain ck where ck: "map_of poses ''qz'' = Some ck" "length (to_list ck) = length (to_list s)"
    using wf_poses_column[OF wf, of "''qz''"] lens by (auto simp: POSE_COLUMNS_def)
  obtain ca where ca: "map_of poses ''tx_m'' = Some ca" "length (to_list ca) = length (to_list s)"
    using wf_poses_column[OF wf, of "''tx_m''"] lens by (auto simp: POSE_COLUMNS_def)
  obtain cb where cb: "map_of poses ''ty_m'' = Some cb" "length (to_list cb) = length (to_list s)"
    using wf_poses_column[OF wf, of "''ty_m''"] lens by (auto simp: POSE_COLUMNS_def)
  obtain cc where cc: "map_of poses ''tz_m'' = Some cc" "length (to_list cc) = length (to_list s)"
    using wf_poses_column[OF wf, of "''tz_m''"] lens by (auto simp: POSE_COLUMNS_def)
  define rows where "rows = matching_rows ''timestamp_ns'' t poses"
  have rows: "rows = filter (\<lambda>j. to_list s ! j = t) [0..<length (to_list s)]"
    by (simp add: rows_def matching_rows_def ts)
  define pose where "pose = map (\<lambda>(n, c). (n, keep_rows (to_list s) t c)) poses"
  have f: "filter_eq ''timestamp_ns'' t poses = (Inr pose :: 'e pose_error + 'a dataframe)"
    by (simp add: filter_eq_def ts pose_def)
  have look: "map_of pose name = map_option (keep_rows (to_list s) t) (map_of poses name)" for name
    unfolding pose_def by (rule map_of_keep_rows)
  have kr: "to_list (keep_rows (to_list s) t c) = map (\<lambda>j. to_list c ! j) rows"
    if "length (to_list c) = length (to_list s)" for c
    using keep_rows_matching[OF that] by (simp add: rows)
  have selq: "select [''qw'', ''qx'', ''qy'', ''qz''] pose
      = (Inr [(''qw'', keep_rows (to_list s) t cw), (''qx'', keep_rows (to_list s) t ci),
             (''qy'', keep_rows (to_list s) t cj), (''qz'', keep_rows (to_list s) t ck)]
         :: 'e pose_error + 'a dataframe)"
    by (simp add: look cw ci cj ck)
  have selt: "select [''tx_m'', ''ty_m'', ''tz_m''] pose
      = (Inr [(''tx_m'', keep_rows (to_list s) t ca), (''ty_m'', keep_rows (to_list s) t cb),
             (''tz_m'', keep_rows (to_list s) t cc)] :: 'e pose_error + 'a dataframe)"
    by (simp add: look ca cb cc)
  have nq: "to_numpy [(''qw'', keep_rows (to_list s) t cw), (''qx'', keep_rows (to_list s) t ci),
             (''qy'', keep_rows (to_list s) t cj), (''qz'', keep_rows (to_list s) t ck)]
      = NDArray [length rows, 4]
          (concat (map (\<lambda>j. [to_list cw ! j, to_list ci ! j, to_list cj ! j, to_list ck ! j]) rows))"
  proof -
    have "map (\<lambda>r. [to_list (keep_rows (to_list s) t cw) ! r, to_list (keep_rows (to_list s) t ci) ! r,
                     to_list (keep_rows (to_list s) t cj) ! r, to_list (keep_rows (to_list s) t ck) ! r])
            [0..<length rows]
        = map (\<lambda>j. [to_list cw ! j, to_list ci ! j, to_list cj ! j, to_list ck ! j]) rows"
      by (rule map_upt_rows) (simp add: kr cw ci cj ck)
    then show ?thesis
      by (simp add: to_numpy_def height_def kr[OF cw(2)])
  qed
  have nt: "to_numpy [(''tx_m'', keep_rows (to_list s) t ca), (''ty_m'', keep_rows (to_list s) t cb),
             (''tz_m'', keep_rows (to_list s) t cc)]
      = NDArray [length rows, 3]
          (concat (map (\<lambda>j. [to_list ca ! j, to_list cb ! j, to_list cc ! j]) rows))"
  proof -
    have "map (\<lambda>r. [to_list (keep_rows (to_list s) t ca) ! r, to_list (keep_rows (to_list s) t cb) ! r,
                     to_list (keep_rows (to_list s) t cc) ! r])
            [0..<length rows]
        = map (\<lambda>j. [to_list ca ! j, to_list cb ! j, to_list cc ! j]) rows"
      by (rule map_upt_rows) (simp add: kr ca cb cc)
    then show ?thesis
      by (simp add: to_numpy_def height_def kr[OF ca(2)])
  qed
  have "query_SE3 quat_to_mat SE3 poses t =
        direct_SE3 quat_to_mat SE3
          (squeeze (NDArray [length rows, 4]
             (concat (map (\<lambda>j. [to_list cw ! j, to_list ci ! j, to_list cj ! j, to_list ck ! j]) rows))))
          (squeeze (NDArray [length rows, 3]
             (concat (map (\<lambda>j. [to_list ca ! j, to_list cb ! j, to_list cc ! j]) rows))))"
    by (simp only: query_SE3_def direct_SE3_def f selq selt sum.case Let_def nq nt)
  then show ?thesis
    unfolding rows_def using cw(1) ci(1) cj(1) ck(1) ca(1) cb(1) cc(1) by blast
qed


text \<open>
  Claim C3. When exactly one row of a well-formed poses table has the queried timestamp,
  \<open>query_SE3\<close> gives the collaborators the one-dimensional array of that row's
  \<open>qw, qx, qy, qz\<close> and the one-dimensional array of its \<open>tx_m, ty_m, tz_m\<close>: its result
  is the direct construction from that quaternion and that translation, whatever the two
  collaborators compute.
\<close>

theorem query_SE3_single_match:
  assumes "wf_poses poses" and "matching_rows ''timestamp_ns'' t poses = [i]"
  shows "\<exists>w a b c u v r.
      cell poses ''qw'' i = Some w \<and> cell poses ''qx'' i = Some a
    \<and> cell poses ''qy'' i = Some b \<and> cell poses ''qz'' i = Some c
    \<and> cell poses ''tx_m'' i = Some u \<and> cell poses ''ty_m'' i = Some v
    \<and> cell poses ''tz_m'' i = Some r
    \<and> query_SE3 quat_to_mat SE3 poses t =
        direct_SE3 quat_to_mat SE3 (NDArray [4] [w, a, b, c]) (NDArray [3] [u, v, r])"
proof -
  obtain s where ts: "map_of poses ''timestamp_ns'' = Some s"
    and lens: "length (to_list s) = height poses"
    using wf_poses_column[OF assms(1), of "''timestamp_ns''"] by (auto simp: POSE_COLUMNS_def)
  have "i \<in> set (matching_rows ''timestamp_ns'' t poses)"
    by (simp add: assms(2))
  then have i: "i < height poses"
    by (simp add: matching_rows_def ts lens)
  have inb: "cell poses name i = Some (to_list col ! i)"
    if "map_of poses name = Some col" for name col
  proof -
    from that have "(name, col) \<in> set poses" by (rule map_of_SomeD)
    with assms(1) have "length (to_list col) = height poses"
      by (auto simp: wf_poses_def list_all_iff)
    with i that show ?thesis by (simp add: cell_def)
  qed
  from query_SE3_rows[OF assms(1) ts, of quat_to_mat SE3 t]
  obtain cw ci cj ck ca cb cc where cols:
    "map_of poses ''qw'' = Some cw" "map_of poses ''qx'' = Some ci"
    "map_of poses ''qy'' = Some cj" "map_of poses ''qz'' = Some ck"
    "map_of poses ''tx_m'' = Some ca" "map_of poses ''ty_m'' = Some cb"
    "map_of poses ''tz_m'' = Some cc"
    and q: "query_SE3 quat_to_mat SE3 poses t =
        direct_SE3 quat_to_mat SE3
          (squeeze (NDArray [length (matching_rows ''timestamp_ns'' t poses), 4]
             (concat (map (\<lambda>j. [to_list cw ! j, to_list ci ! j, to_list cj ! j, to_list ck ! j])
                (matching_rows ''timestamp_ns'' t poses)))))
          (squeeze (NDArray [length (matching_rows ''timestamp_ns'' t poses), 3]
             (concat (map (\<lambda>j. [to_list ca ! j, to_list cb ! j, to_list cc ! j])
                (matching_rows ''timestamp_ns'' t poses)))))"
    by blast
  have "query_SE3 quat_to_mat SE3 poses t =
        direct_SE3 quat_to_mat SE3
          (NDArray [4] [to_list cw ! i, to_list ci ! i, to_list cj ! i, to_list ck ! i])
          (NDArray [3] [to_list ca ! i, to_list cb ! i, to_list cc ! i])"
    unfolding q assms(2) by (simp add: squeeze_def)
  with cols[THEN inb] show ?thesis by blast
qed

theorem query_SE3_single_match_witness:
  "wf_poses poses_table \<and> matching_rows ''timestamp_ns'' 100 poses_table = [0]
   \<and> query_SE3 lenient_quat_to_mat lenient_SE3 poses_table 100
       = direct_SE3 lenient_quat_to_mat lenient_SE3 (NDArray [4] [1, 0, 0, 0]) (NDArray [3] [5, 6, 7])
   \<and> query_SE3 lenient_quat_to_mat lenient_SE3 poses_table 100
       = Inr (NDArray [4] [1, 0, 0, 0], NDArray [3] [5, 6, 7])"
proof -
  have wf: "wf_poses poses_table"
    by (simp add: wf_poses_def poses_table_def POSE_COLUMNS_def height_def)
  have m: "matching_rows ''timestamp_ns'' 100 poses_table = [0]"
    by (simp add: matching_rows_def poses_table_def upt_rec)
  have q: "query_SE3 lenient_quat_to_mat lenient_SE3 poses_table 100
       = direct_SE3 lenient_quat_to_mat lenient_SE3 (NDArray [4] [1, 0, 0, 0]) (NDArray [3] [5, 6, 7])"
    using query_SE3_single_match[OF wf m, of lenient_quat_to_mat lenient_SE3]
    by (simp add: cell_def poses_table_def)
  have "direct_SE3 lenient_quat_to_mat lenient_SE3 (NDArray [4] [1, 0, 0, 0]) (NDArray [3] [5, 6, 7])
       = Inr (NDArray [4] [1, 0, 0, 0], NDArray [3] [5, 6, 7])"
    by (simp add: direct_SE3_def lenient_quat_to_mat_def lenient_SE3_def)
  with wf m q show ?thesis by simp
qed

text \<open>
  Claim C4, as amended. When no row of a well-formed poses table has the queried
  timestamp, \<open>query_SE3\<close> raises nothing of its own: it hands \<open>quat_to_mat\<close> the empty
  array of shape \<open>(0, 4)\<close> and the constructor the empty array of shape \<open>(0, 3)\<close>, and
  returns or fails as they do on these.
\<close>

theorem query_SE3_no_match:
  assumes "wf_poses poses" and "matching_rows ''timestamp_ns'' t poses = []"
  shows "query_SE3 quat_to_mat SE3 poses t =
        direct_SE3 quat_to_mat SE3 (NDArray [0, 4] []) (NDArray [0, 3] [])"
proof -
  obtain s where ts: "map_of poses ''timestamp_ns'' = Some s"
    using wf_poses_column[OF assms(1), of "''timestamp_ns''"] by (auto simp: POSE_COLUMNS_def)
  from query_SE3_rows[OF assms(1) ts, of quat_to_mat SE3 t]
  show ?thesis unfolding assms(2) by (auto simp: squeeze_def)
qed

theorem query_SE3_no_match_witness:
  "wf_poses poses_table \<and> matching_rows ''timestamp_ns'' 300 poses_table = []
   \<and> query_SE3 strict_quat_to_mat strict_SE3 poses_table 300
       = direct_SE3 strict_quat_to_mat strict_SE3 (NDArray [0, 4] []) (NDArray [0, 3] [])"
proof -
  have wf: "wf_poses poses_table"
    by (simp add: wf_poses_def poses_table_def POSE_COLUMNS_def height_def)
  have m: "matching_rows ''timestamp_ns'' 300 poses_table = []"
    by (simp add: matching_rows_def poses_table_def upt_rec)
  from wf m query_SE3_no_match[OF wf m, of strict_quat_to_mat strict_SE3]
  show ?thesis by simp
qed

theorem query_SE3_no_match_counterexample:
  "query_SE3 lenient_quat_to_mat lenient_SE3 poses_table 300
     = Inr (NDArray [0, 4] [], NDArray [0, 3] [])
   \<and> query_SE3 strict_quat_to_mat strict_SE3 poses_table 300 = Inl (Raised ''ValueError'')"
  by (simp add: query_SE3_def filter_eq_def keep_rows_def poses_table_def to_numpy_def
      height_def squeeze_def lenient_quat_to_mat_def lenient_SE3_def strict_quat_to_mat_def
      strict_SE3_def)

section \<open>The exporter: evaluation order, stacking and columns\<close>

lemma sequence_map_Inr: "sequence (map Inr vs) = Inr vs"
  by (induction vs) auto

lemma sequence_InrD: "sequence rs = Inr vs \<Longrightarrow> rs = map Inr vs"
  by (induction rs arbitrary: vs) (auto split: sum.splits)

lemma sequence_Inr_iff: "sequence rs = Inr vs \<longleftrightarrow> rs = map Inr vs"
  using sequence_map_Inr sequence_InrD by metis

lemma sequence_Inl_ex: "\<exists>r\<in>set rs. isl r \<Longrightarrow> \<exists>e. sequence rs = Inl e"
proof (induction rs)
  case Nil
  then show ?case by simp
next
  case (Cons r rs)
  show ?case
  proof (cases r)
    case (Inl e)
    then show ?thesis by simp
  next
    case (Inr v)
    with Cons.prems have "\<exists>r\<in>set rs. isl r" by auto
    then obtain e where "sequence rs = Inl e" using Cons.IH by blast
    with Inr show ?thesis by simp
  qed
qed

lemma sequence_first_error:
  assumes "\<And>n. n \<in> set ns \<Longrightarrow> P n \<Longrightarrow> \<exists>v. f n = Inr v"
    and "\<And>n. n \<in> set ns \<Longrightarrow> \<not> P n \<Longrightarrow> f n = Inl (E n)"
    and "find (\<lambda>n. \<not> P n) ns = Some m"
  shows "sequence (map f ns) = Inl (E m)"
  using assms
proof (induction ns)
  case Nil
  then show ?case by simp
next
  case (Cons n ns)
  show ?case
  proof (cases "P n")
    case True
    then obtain v where v: "f n = Inr v" using Cons.prems(1)[of n] by auto
    from True Cons.prems(3) have "find (\<lambda>n. \<not> P n) ns = Some m" by simp
    then have "sequence (map f ns) = Inl (E m)"
      using Cons.IH Cons.prems(1,2) by simp
    with v show ?thesis by simp
  next
    case False
    then have "m = n" using Cons.prems(3) by simp
    with False Cons.prems(2)[of n] show ?thesis by simp
  qed
qed

lemma chunks_concat:
  assumes "0 < k" and "\<And>row. row \<in> set rows \<Longrightarrow> length row = k"
  shows "chunks k (concat rows) = rows"
  using assms(2)
proof (induction rows)
  case Nil
  then show ?case by (simp add: chunks.simps)
next
  case (Cons row rows)
  then have len: "length row = k" by simp
  with assms(1) have ne: "row \<noteq> []" by auto
  have "chunks k (row @ concat rows) = take k (row @ concat rows) # chunks k (drop k (row @ concat rows))"
    using assms(1) ne by (subst chunks.simps) simp
  also have "\<dots> = row # chunks k (concat rows)" using len by simp
  finally show ?case using Cons by simp
qed

lemma chunks_map: "chunks k (map f xs) = map (map f) (chunks k xs)"
proof (induction k xs rule: chunks.induct)
  case (1 k xs)
  show ?case
  proof (cases "k = 0 \<or> xs = []")
    case True
    then show ?thesis by (auto simp: chunks.simps)
  next
    case False
    then have "chunks k (map f xs) = take k (map f xs) # chunks k (drop k (map f xs))"
      by (subst chunks.simps) simp
    also have "\<dots> = map f (take k xs) # map (map f) (chunks k (drop k xs))"
      using 1[OF False] by (simp add: take_map drop_map)
    also have "\<dots> = map (map f) (chunks k xs)"
      using False by (subst (2) chunks.simps) simp
    finally show ?thesis .
  qed
qed

lemma stack_tensors_Inr:
  assumes "stack_tensors ts = Inr S"
  shows "ts \<noteq> [] \<and> (\<forall>u\<in>set ts. shape u = shape (hd ts))
    \<and> S = Tensor (shape (hd ts) @ [length ts])
          (concat (map (\<lambda>r. map (\<lambda>u. data u ! r) ts) [0..<prod_list (shape (hd ts))]))"
  using assms
  by (cases ts) (auto simp: stack_tensors_def list_ex_iff split: if_splits)

lemma stack_tensors_ok:
  assumes "ts \<noteq> []" and "\<And>u. u \<in> set ts \<Longrightarrow> shape u = s"
  shows "stack_tensors ts = Inr (Tensor (s @ [length ts])
          (concat (map (\<lambda>r. map (\<lambda>u. data u ! r) ts) [0..<prod_list s])))"
  using assms
  by (cases ts) (auto simp: stack_tensors_def list_ex_iff)

lemma select_last_stack:
  assumes "ts \<noteq> []" and "j < length ts"
    and "length (data (ts ! j)) = n"
  shows "select_last j (Tensor (s @ [length ts])
          (map g (concat (map (\<lambda>r. map (\<lambda>u. data u ! r) ts) [0..<n]))))
     = Tensor s (map g (data (ts ! j)))"
proof -
  have k: "0 < length ts" using assms(1) by simp
  have "chunks (length ts) (map g (concat (map (\<lambda>r. map (\<lambda>u. data u ! r) ts) [0..<n])))
      = map (map g) (map (\<lambda>r. map (\<lambda>u. data u ! r) ts) [0..<n])"
    unfolding chunks_map by (subst chunks_concat[OF k]) auto
  then have "map (\<lambda>row. row ! j)
       (chunks (length ts) (map g (concat (map (\<lambda>r. map (\<lambda>u. data u ! r) ts) [0..<n]))))
      = map (\<lambda>r. g (data (ts ! j) ! r)) [0..<n]"
    using assms(2) by (simp add: o_def)
  also have "\<dots> = map g (data (ts ! j))"
    using assms(3) by (intro nth_equalityI) auto
  finally show ?thesis
    by (simp add: select_last_def)
qed


lemma export_structure:
  assumes seq: "sequence (map f ns) = Inr vs" and st: "torch_stack vs = Inr (S :: 'a tensor)"
    and wf: "\<forall>n t. n \<in> set ns \<longrightarrow> f n = Inr (TensorV t) \<longrightarrow> wf_tensor t"
  shows "ns \<noteq> [] \<and> (\<exists>s ts. length ts = length ns
      \<and> (\<forall>j<length ns. f (ns ! j) = Inr (TensorV (ts ! j)) \<and> shape (ts ! j) = s)
      \<and> shape S = s @ [length ns]
      \<and> (\<forall>j<length ns. \<forall>g :: 'a \<Rightarrow> 'a. select_last j (Tensor (shape S) (map g (data S)))
             = Tensor s (map g (data (ts ! j)))))"
proof -
  from seq have m: "map f ns = map Inr vs" by (rule sequence_InrD)
  from arg_cong[OF m, of length] have len: "length vs = length ns" by simp
  have fj: "f (ns ! j) = Inr (vs ! j)" if "j < length ns" for j
    using arg_cong[OF m, of "\<lambda>l. l ! j"] that len by simp
  from st have allt: "list_all is_tensor vs"
    and stk: "stack_tensors (map the_tensor vs) = Inr S"
    by (auto simp: torch_stack_def split: if_splits)
  define ts where "ts = map the_tensor vs"
  define s where "s = shape (hd ts)"
  have lts: "length ts = length ns" by (simp add: ts_def len)
  have vj: "vs ! j = TensorV (ts ! j)" if "j < length ns" for j
  proof -
    from that len have "vs ! j \<in> set vs" by simp
    with allt have "is_tensor (vs ! j)" by (simp add: list_all_iff)
    then show ?thesis using that len by (cases "vs ! j") (simp_all add: ts_def)
  qed
  from stack_tensors_Inr[OF stk[folded ts_def], folded s_def]
  have ne: "ts \<noteq> []" and sh: "\<forall>u\<in>set ts. shape u = s"
    and S: "S = Tensor (s @ [length ts])
          (concat (map (\<lambda>r. map (\<lambda>u. data u ! r) ts) [0..<prod_list s]))"
    by blast+
  have shj: "shape (ts ! j) = s" if "j < length ns" for j
    using sh that lts by simp
  have wfj: "length (data (ts ! j)) = prod_list s" if "j < length ns" for j
  proof -
    have "wf_tensor (ts ! j)"
      using wf[rule_format, OF nth_mem[OF that], of "ts ! j"] fj[OF that] vj[OF that] by simp
    then show ?thesis using shj[OF that] by (simp add: wf_tensor_def)
  qed
  have sel: "select_last j (Tensor (shape S) (map g (data S))) = Tensor s (map g (data (ts ! j)))"
    if "j < length ns" for j g
    using select_last_stack[OF ne, of j "prod_list s" s g] that lts wfj[OF that]
    by (simp add: S)
  from ne lts have nne: "ns \<noteq> []" by auto
  have shS: "shape S = s @ [length ns]" by (simp add: S lts)
  have fts: "\<forall>j<length ns. f (ns ! j) = Inr (TensorV (ts ! j)) \<and> shape (ts ! j) = s"
    using fj vj shj by simp
  have sels: "\<forall>j<length ns. \<forall>g :: 'a \<Rightarrow> 'a. select_last j (Tensor (shape S) (map g (data S)))
             = Tensor s (map g (data (ts ! j)))"
    using sel by blast
  from nne lts fts shS sels show ?thesis by blast
qed

lemma export_ok:
  assumes "ns \<noteq> []" and "\<And>n. n \<in> set ns \<Longrightarrow> \<exists>t. f n = Inr (TensorV t) \<and> shape t = s"
  shows "\<exists>vs S. sequence (map f ns) = Inr vs \<and> torch_stack vs = Inr S"
proof -
  define ts where "ts = map (\<lambda>n. the_tensor (projr (f n))) ns"
  have fn: "f n = Inr (TensorV (the_tensor (projr (f n))))" and shn: "shape (the_tensor (projr (f n))) = s"
    if "n \<in> set ns" for n
    using assms(2)[OF that] by auto
  have "map f ns = map (\<lambda>n. Inr (TensorV (the_tensor (projr (f n))))) ns"
    by (rule map_cong[OF refl]) (rule fn)
  also have "\<dots> = map Inr (map TensorV ts)"
    by (simp add: ts_def o_def)
  finally have seq: "sequence (map f ns) = Inr (map TensorV ts)"
    by (simp only: sequence_map_Inr)
  have "ts \<noteq> []" using assms(1) by (simp add: ts_def)
  moreover have "shape u = s" if "u \<in> set ts" for u
    using that shn by (auto simp: ts_def)
  ultimately have "\<exists>S. stack_tensors ts = Inr S"
    using stack_tensors_ok[of ts s] by blast
  moreover have "list_all is_tensor (map TensorV ts)" by (simp add: list_all_iff)
  moreover have "map the_tensor (map TensorV ts) = ts" by (simp add: o_def)
  ultimately have "\<exists>S. torch_stack (map TensorV ts) = Inr S"
    by (simp add: torch_stack_def)
  with seq show ?thesis by blast
qed


lemma quaternion_Inr:
  assumes "quaternion self = Inr q"
  shows "\<exists>tw ti tj tk. qw self = TensorV tw \<and> qx self = TensorV ti
      \<and> qy self = TensorV tj \<and> qz self = TensorV tk
      \<and> shape ti = shape tw \<and> shape tj = shape tw \<and> shape tk = shape tw
      \<and> q = Tensor (shape tw @ [4])
            (concat (map (\<lambda>r. [data tw ! r, data ti ! r, data tj ! r, data tk ! r])
               [0..<prod_list (shape tw)]))"
proof -
  from assms have allt: "is_tensor (qw self)" "is_tensor (qx self)"
      "is_tensor (qy self)" "is_tensor (qz self)"
    by (auto simp: quaternion_def torch_stack_def split: if_splits)
  then obtain tw ti tj tk where t: "qw self = TensorV tw" "qx self = TensorV ti"
      "qy self = TensorV tj" "qz self = TensorV tk"
    by (cases "qw self"; cases "qx self"; cases "qy self"; cases "qz self") auto
  from assms have "stack_tensors [tw, ti, tj, tk] = Inr q"
    by (simp add: quaternion_def torch_stack_def t)
  from stack_tensors_Inr[OF this] t show ?thesis by simp
qed

lemma quaternion_ok:
  assumes "qw self = TensorV tw" "qx self = TensorV ti" "qy self = TensorV tj"
    "qz self = TensorV tk" "shape ti = shape tw" "shape tj = shape tw" "shape tk = shape tw"
  shows "quaternion self = Inr (Tensor (shape tw @ [4])
            (concat (map (\<lambda>r. [data tw ! r, data ti ! r, data tj ! r, data tk ! r])
               [0..<prod_list (shape tw)])))"
  using assms by (simp add: quaternion_def torch_stack_def stack_tensors_def)

lemma quat_to_yaw_stacked:
  "quat_to_yaw q2y (Tensor (s @ [4]) (concat (map (\<lambda>r. [a r, b r, c r, d r]) [0..<n])))
     = Tensor s (map (\<lambda>r. q2y [a r, b r, c r, d r]) [0..<n])"
proof -
  have "chunks 4 (concat (map (\<lambda>r. [a r, b r, c r, d r]) [0..<n]))
      = map (\<lambda>r. [a r, b r, c r, d r]) [0..<n]"
    by (rule chunks_concat) auto
  then show ?thesis by (simp add: quat_to_yaw_def o_def)
qed

lemma yaw_radians_Inr:
  assumes "yaw_radians q2y self = Inr v"
  shows "\<exists>tw ti tj tk. qw self = TensorV tw \<and> qx self = TensorV ti
      \<and> qy self = TensorV tj \<and> qz self = TensorV tk
      \<and> shape ti = shape tw \<and> shape tj = shape tw \<and> shape tk = shape tw
      \<and> v = TensorV (Tensor (shape tw)
            (map (\<lambda>r. q2y [data tw ! r, data ti ! r, data tj ! r, data tk ! r])
               [0..<prod_list (shape tw)]))"
proof -
  from assms obtain q where q: "quaternion self = Inr q" and v: "v = TensorV (quat_to_yaw q2y q)"
    by (auto simp: yaw_radians_def split: sum.splits)
  from quaternion_Inr[OF q] obtain tw ti tj tk where t: "qw self = TensorV tw" "qx self = TensorV ti"
      "qy self = TensorV tj" "qz self = TensorV tk"
      "shape ti = shape tw" "shape tj = shape tw" "shape tk = shape tw"
    and qq: "q = Tensor (shape tw @ [4])
            (concat (map (\<lambda>r. [data tw ! r, data ti ! r, data tj ! r, data tk ! r])
               [0..<prod_list (shape tw)]))"
    by blast
  have "v = TensorV (Tensor (shape tw)
            (map (\<lambda>r. q2y [data tw ! r, data ti ! r, data tj ! r, data tk ! r])
               [0..<prod_list (shape tw)]))"
    unfolding v qq quat_to_yaw_stacked ..
  with t show ?thesis by blast
qed

lemma length_concat_rows:
  "length (concat (map (\<lambda>r. [a r, b r, c r, d r]) [0..<n])) = n * 4"
  by (induction n) auto

lemma annotations_dict_wf:
  assumes "wf_annotations self" and "map_of (annotations_dict self) name = Some (TensorV t)"
  shows "wf_tensor t"
proof -
  from assms(2) have "(name, TensorV t) \<in> set (annotations_dict self)" by (rule map_of_SomeD)
  with assms(1) show ?thesis by (auto simp: wf_annotations_def list_all_iff)
qed

lemma annotations_field_wf:
  assumes "annotations_field q2y inh self name = Inr (TensorV t)"
  shows "wf_annotations self \<Longrightarrow> wf_tensor t"
proof -
  assume wf: "wf_annotations self"
  consider (yaw) "yaw_radians q2y self = Inr (TensorV t)"
    | (quat) "quaternion self = Inr t"
    | (field) "map_of (annotations_dict self) name = Some (TensorV t)"
    using assms
    by (auto simp: annotations_field_def annotations_getattr_def
        split: if_splits sum.splits option.splits)
  then show ?thesis
  proof cases
    case yaw
    from yaw_radians_Inr[OF yaw] show ?thesis by (auto simp: wf_tensor_def)
  next
    case quat
    from quaternion_Inr[OF quat] show ?thesis
      by (auto simp: wf_tensor_def length_concat_rows)
  next
    case field
    with wf show ?thesis by (rule annotations_dict_wf)
  qed
qed

lemma lidar_getattr_wf:
  assumes "wf_lidar self" and "lidar_getattr inh self name = Inr (TensorV t)"
  shows "wf_tensor t"
proof -
  from assms(2) have "map_of (lidar_dict self) name = Some (TensorV t)"
    by (auto simp: lidar_getattr_def split: option.splits if_splits)
  then have "(name, TensorV t) \<in> set (lidar_dict self)" by (rule map_of_SomeD)
  with assms(1) show ?thesis by (auto simp: wf_lidar_def list_all_iff)
qed


lemma annotations_as_tensor_Inr:
  assumes ok: "annotations_as_tensor q2y cast inh self fo om dt = Inr (T :: 'a tensor)"
    and wf: "wf_annotations self"
  shows "effective_ordering om fo \<noteq> [] \<and> (\<exists>s ts. length ts = length (effective_ordering om fo)
      \<and> (\<forall>j<length (effective_ordering om fo).
            annotations_field q2y inh self (effective_ordering om fo ! j) = Inr (TensorV (ts ! j))
          \<and> shape (ts ! j) = s
          \<and> select_last j T = tensor_type cast dt (ts ! j))
      \<and> shape T = s @ [length (effective_ordering om fo)])"
proof -
  define eff where "eff = effective_ordering om fo"
  from ok obtain vs S where seq: "sequence (map (annotations_field q2y inh self) eff) = Inr vs"
    and st: "torch_stack vs = Inr S" and T: "T = tensor_type cast dt S"
    by (auto simp: annotations_as_tensor_def effective_ordering_def eff_def Let_def
        split: sum.splits)
  have wfn: "\<forall>n t. n \<in> set eff \<longrightarrow> annotations_field q2y inh self n = Inr (TensorV t)
      \<longrightarrow> wf_tensor t"
    using annotations_field_wf wf by blast
  from export_structure[OF seq st wfn]
  obtain s ts where ne: "eff \<noteq> []" and len: "length ts = length eff"
    and f: "\<forall>j<length eff. annotations_field q2y inh self (eff ! j) = Inr (TensorV (ts ! j))
          \<and> shape (ts ! j) = s"
    and sh: "shape S = s @ [length eff]"
    and sel: "\<forall>j<length eff. \<forall>g :: 'a \<Rightarrow> 'a. select_last j (Tensor (shape S) (map g (data S)))
             = Tensor s (map g (data (ts ! j)))"
    by blast
  have "select_last j T = tensor_type cast dt (ts ! j)" if "j < length eff" for j
  proof -
    have a: "select_last j (Tensor (shape S) (map (cast dt) (data S)))
        = Tensor s (map (cast dt) (data (ts ! j)))"
      using sel[rule_format, OF that, of "cast dt"] .
    have b: "shape (ts ! j) = s" using f[rule_format, OF that] by simp
    show ?thesis using a b by (simp add: T tensor_type_def)
  qed
  moreover have "shape T = s @ [length eff]" by (simp add: T tensor_type_def sh)
  ultimately show ?thesis
    unfolding eff_def[symmetric] using ne len f by blast
qed

lemma lidar_as_tensor_Inr:
  assumes ok: "lidar_as_tensor cast inh self fo dt = Inr (T :: 'a tensor)"
    and wf: "wf_lidar self"
  shows "fo \<noteq> [] \<and> (\<exists>s ts. length ts = length fo
      \<and> (\<forall>j<length fo.
            lidar_getattr inh self (fo ! j) = Inr (TensorV (ts ! j))
          \<and> shape (ts ! j) = s
          \<and> select_last j T = tensor_type cast dt (ts ! j))
      \<and> shape T = s @ [length fo])"
proof -
  from ok obtain vs S where seq: "sequence (map (lidar_getattr inh self) fo) = Inr vs"
    and st: "torch_stack vs = Inr S" and T: "T = tensor_type cast dt S"
    by (auto simp: lidar_as_tensor_def split: sum.splits)
  have wfn: "\<forall>n t. n \<in> set fo \<longrightarrow> lidar_getattr inh self n = Inr (TensorV t)
      \<longrightarrow> wf_tensor t"
    using lidar_getattr_wf wf by blast
  from export_structure[OF seq st wfn]
  obtain s ts where ne: "fo \<noteq> []" and len: "length ts = length fo"
    and f: "\<forall>j<length fo. lidar_getattr inh self (fo ! j) = Inr (TensorV (ts ! j))
          \<and> shape (ts ! j) = s"
    and sh: "shape S = s @ [length fo]"
    and sel: "\<forall>j<length fo. \<forall>g :: 'a \<Rightarrow> 'a. select_last j (Tensor (shape S) (map g (data S)))
             = Tensor s (map g (data (ts ! j)))"
    by blast
  have "select_last j T = tensor_type cast dt (ts ! j)" if "j < length fo" for j
  proof -
    have a: "select_last j (Tensor (shape S) (map (cast dt) (data S)))
        = Tensor s (map (cast dt) (data (ts ! j)))"
      using sel[rule_format, OF that, of "cast dt"] .
    have b: "shape (ts ! j) = s" using f[rule_format, OF that] by simp
    show ?thesis using a b by (simp add: T tensor_type_def)
  qed
  moreover have "shape T = s @ [length fo]" by (simp add: T tensor_type_def sh)
  ultimately show ?thesis
    using ne len f by blast
qed

section \<open>The rewritten ordering of the yaw mode\<close>

lemma yaw_ordering_eq:
  "yaw_ordering fo = take 6 (filter (\<lambda>n. n \<notin> {''qw'', ''qx'', ''qy'', ''qz''}) fo)
       @ ''yaw'' # drop 6 (filter (\<lambda>n. n \<notin> {''qw'', ''qx'', ''qy'', ''qz''}) fo)"
  by (simp add: yaw_ordering_def list_insert_def)

lemma yaw_export:
  assumes "wf_annotations self"
    and "annotations_as_tensor q2y cast inh self fo YAW dt = Inr (T :: 'a tensor)"
  shows "\<exists>yaw s. yaw_radians q2y self = Inr (TensorV yaw)
     \<and> shape T = s @ [length (yaw_ordering fo)]
     \<and> (\<forall>j<length (yaw_ordering fo). yaw_ordering fo ! j = ''yaw'' \<longrightarrow>
             select_last j T = tensor_type cast dt yaw)
     \<and> (\<forall>j<length (yaw_ordering fo). yaw_ordering fo ! j \<noteq> ''yaw'' \<longrightarrow>
             (\<exists>t. annotations_getattr q2y inh self (yaw_ordering fo ! j) = Inr (TensorV t)
                \<and> select_last j T = tensor_type cast dt t))"
proof -
  define ordering where "ordering = yaw_ordering fo"
  have eff: "effective_ordering YAW fo = ordering"
    by (simp add: effective_ordering_def ordering_def)
  from annotations_as_tensor_Inr[OF assms(2,1), unfolded eff]
  obtain s ts where len: "length ts = length ordering"
    and f: "\<forall>j<length ordering.
            annotations_field q2y inh self (ordering ! j) = Inr (TensorV (ts ! j))
          \<and> shape (ts ! j) = s
          \<and> select_last j T = tensor_type cast dt (ts ! j)"
    and sh: "shape T = s @ [length ordering]"
    by blast
  have "''yaw'' \<in> set ordering" by (simp add: ordering_def yaw_ordering_eq)
  then obtain k where k: "k < length ordering" "ordering ! k = ''yaw''"
    by (auto simp: in_set_conv_nth)
  with f have y: "yaw_radians q2y self = Inr (TensorV (ts ! k))"
    by (auto simp: annotations_field_def)
  have b: "select_last j T = tensor_type cast dt (ts ! k)"
    if "j < length ordering" "ordering ! j = ''yaw''" for j
  proof -
    from f that have "yaw_radians q2y self = Inr (TensorV (ts ! j))"
      by (auto simp: annotations_field_def)
    with y have "ts ! j = ts ! k" by simp
    with f that show ?thesis by simp
  qed
  have c: "\<exists>t. annotations_getattr q2y inh self (ordering ! j) = Inr (TensorV t)
                \<and> select_last j T = tensor_type cast dt t"
    if "j < length ordering" "ordering ! j \<noteq> ''yaw''" for j
    using f that by (auto simp: annotations_field_def)
  from y sh b c show ?thesis
    unfolding ordering_def[symmetric] by blast
qed

text \<open>
  Claim C2. Whenever \<open>Annotations.as_tensor\<close> returns in \<open>YAW\<close> mode, the columns of the
  result follow the ordering obtained from \<open>field_ordering\<close> by removing every \<open>qw\<close>,
  \<open>qx\<close>, \<open>qy\<close>, \<open>qz\<close> and inserting \<open>yaw\<close> at index 6 of what is left (Python's
  \<open>insert\<close>: the six names before it stay, the others follow). Every column whose name
  is \<open>yaw\<close> holds the derived \<open>yaw_radians\<close>, cast to the target dtype like every
  other column; every other column holds the attribute of its name.
\<close>

theorem as_tensor_yaw_mode:
  assumes "wf_annotations self"
    and "annotations_as_tensor q2y cast inh self field_ordering YAW dt = Inr (T :: 'a tensor)"
  shows "\<exists>yaw. yaw_radians q2y self = Inr (TensorV yaw) \<and>
     (let filtered = filter (\<lambda>n. n \<notin> {''qw'', ''qx'', ''qy'', ''qz''}) field_ordering;
          ordering = take 6 filtered @ ''yaw'' # drop 6 filtered
      in last (shape T) = length ordering
       \<and> (\<forall>j<length ordering. ordering ! j = ''yaw'' \<longrightarrow>
             select_last j T = tensor_type cast dt yaw)
       \<and> (\<forall>j<length ordering. ordering ! j \<noteq> ''yaw'' \<longrightarrow>
             (\<exists>t. annotations_getattr q2y inh self (ordering ! j) = Inr (TensorV t)
                \<and> select_last j T = tensor_type cast dt t)))"
proof -
  from yaw_export[OF assms] obtain yaw s where "yaw_radians q2y self = Inr (TensorV yaw)"
     "shape T = s @ [length (yaw_ordering field_ordering)]"
     "\<forall>j<length (yaw_ordering field_ordering). yaw_ordering field_ordering ! j = ''yaw'' \<longrightarrow>
             select_last j T = tensor_type cast dt yaw"
     "\<forall>j<length (yaw_ordering field_ordering). yaw_ordering field_ordering ! j \<noteq> ''yaw'' \<longrightarrow>
             (\<exists>t. annotations_getattr q2y inh self (yaw_ordering field_ordering ! j) = Inr (TensorV t)
                \<and> select_last j T = tensor_type cast dt t)"
    by blast
  then show ?thesis
    unfolding Let_def yaw_ordering_eq[symmetric] by (intro exI[of _ yaw]) simp
qed

theorem as_tensor_yaw_mode_witness:
  "wf_annotations annotations_example
   \<and> annotations_as_tensor example_q2y example_cast example_inherited annotations_example
        DEFAULT_ANNOTATIONS_TENSOR_FIELDS YAW torch_float32
       = Inr (Tensor [2, 10]
           [Num 10, Num 11, Num 12, Num 4, Num 2, Num 1, Num 2, Num 7, Num 0, Num 0,
            Num 20, Num 21, Num 22, Num 5, Num 3, Num 2, Num 10, Num 8, Num 1, Num 0])
   \<and> yaw_radians example_q2y annotations_example = Inr (TensorV (Tensor [2] [Num 2, Num 10]))
   \<and> select_last 6 (Tensor [2, 10]
           [Num 10, Num 11, Num 12, Num 4, Num 2, Num 1, Num 2, Num 7, Num 0, Num 0,
            Num 20, Num 21, Num 22, Num 5, Num 3, Num 2, Num 10, Num 8, Num 1, Num 0])
       = tensor_type example_cast torch_float32 (Tensor [2] [Num 2, Num 10])"
proof -
  have wf: "wf_annotations annotations_example" by code_simp
  have e: "annotations_as_tensor example_q2y example_cast example_inherited annotations_example
        DEFAULT_ANNOTATIONS_TENSOR_FIELDS YAW torch_float32
       = Inr (Tensor [2, 10]
           [Num 10, Num 11, Num 12, Num 4, Num 2, Num 1, Num 2, Num 7, Num 0, Num 0,
            Num 20, Num 21, Num 22, Num 5, Num 3, Num 2, Num 10, Num 8, Num 1, Num 0])"
    by code_simp
  have y: "yaw_radians example_q2y annotations_example = Inr (TensorV (Tensor [2] [Num 2, Num 10]))"
    by code_simp
  have "select_last 6 (Tensor [2, 10]
           [Num 10, Num 11, Num 12, Num 4, Num 2, Num 1, Num 2, Num 7, Num 0, Num 0,
            Num 20, Num 21, Num 22, Num 5, Num 3, Num 2, Num 10, Num 8, Num 1, Num 0])
       = tensor_type example_cast torch_float32 (Tensor [2] [Num 2, Num 10])"
    using as_tensor_yaw_mode[OF wf e] y
    unfolding Let_def DEFAULT_ANNOTATIONS_TENSOR_FIELDS_def
    by (auto dest!: spec[where x="6::nat"])
  with wf e y show ?thesis by blast
qed

text \<open>
  Claim C10. In \<open>YAW\<close> mode, when fewer than six names are left after removing \<open>qw\<close>,
  \<open>qx\<close>, \<open>qy\<close>, \<open>qz\<close>, the name \<open>yaw\<close> is appended at the end of what is left: the
  result has at most six columns, so no seventh, and its last column is the yaw.
\<close>

theorem as_tensor_yaw_short_ordering:
  assumes "wf_annotations self"
    and "annotations_as_tensor q2y cast inh self field_ordering YAW dt = Inr (T :: 'a tensor)"
    and "length (filter (\<lambda>n. n \<notin> {''qw'', ''qx'', ''qy'', ''qz''}) field_ordering) < 6"
  shows "effective_ordering YAW field_ordering
       = filter (\<lambda>n. n \<notin> {''qw'', ''qx'', ''qy'', ''qz''}) field_ordering @ [''yaw'']
     \<and> last (shape T) = length (filter (\<lambda>n. n \<notin> {''qw'', ''qx'', ''qy'', ''qz''}) field_ordering) + 1
     \<and> last (shape T) \<le> 6
     \<and> (\<exists>yaw. yaw_radians q2y self = Inr (TensorV yaw)
          \<and> select_last (last (shape T) - 1) T = tensor_type cast dt yaw)"
proof -
  define filtered where "filtered = filter (\<lambda>n. n \<notin> {''qw'', ''qx'', ''qy'', ''qz''}) field_ordering"
  have ord: "yaw_ordering field_ordering = filtered @ [''yaw'']"
    using assms(3) by (simp add: yaw_ordering_eq filtered_def)
  from yaw_export[OF assms(1,2), unfolded ord] obtain yaw s
    where y: "yaw_radians q2y self = Inr (TensorV yaw)"
      and sh: "shape T = s @ [length (filtered @ [''yaw''])]"
      and col: "\<forall>j<length (filtered @ [''yaw'']). (filtered @ [''yaw'']) ! j = ''yaw'' \<longrightarrow>
             select_last j T = tensor_type cast dt yaw"
    by blast
  have l: "last (shape T) = length filtered + 1" by (simp add: sh)
  from col have "select_last (length filtered) T = tensor_type cast dt yaw" by simp
  with y l have "\<exists>yaw. yaw_radians q2y self = Inr (TensorV yaw)
          \<and> select_last (last (shape T) - 1) T = tensor_type cast dt yaw"
    by auto
  moreover have "effective_ordering YAW field_ordering = filtered @ [''yaw'']"
    by (simp add: effective_ordering_def ord)
  moreover have "last (shape T) \<le> 6" using l assms(3) by (simp add: filtered_def)
  ultimately show ?thesis using l unfolding filtered_def by blast
qed

theorem as_tensor_yaw_short_ordering_witness:
  "wf_annotations annotations_example
   \<and> annotations_as_tensor example_q2y example_cast example_inherited annotations_example
        [''tx_m'', ''qw'', ''ty_m''] YAW torch_float32
       = Inr (Tensor [2, 3] [Num 10, Num 11, Num 2, Num 20, Num 21, Num 10])
   \<and> length (filter (\<lambda>n. n \<notin> {''qw'', ''qx'', ''qy'', ''qz''}) [''tx_m'', ''qw'', ''ty_m'']) < 6
   \<and> effective_ordering YAW [''tx_m'', ''qw'', ''ty_m''] = [''tx_m'', ''ty_m'', ''yaw'']
   \<and> yaw_radians example_q2y annotations_example = Inr (TensorV (Tensor [2] [Num 2, Num 10]))
   \<and> select_last 2 (Tensor [2, 3] [Num 10, Num 11, Num 2, Num 20, Num 21, Num 10])
       = tensor_type example_cast torch_float32 (Tensor [2] [Num 2, Num 10])"
proof -
  have wf: "wf_annotations annotations_example" by code_simp
  have e: "annotations_as_tensor example_q2y example_cast example_inherited annotations_example
        [''tx_m'', ''qw'', ''ty_m''] YAW torch_float32
       = Inr (Tensor [2, 3] [Num 10, Num 11, Num 2, Num 20, Num 21, Num 10])"
    by code_simp
  have s: "length (filter (\<lambda>n. n \<notin> {''qw'', ''qx'', ''qy'', ''qz''}) [''tx_m'', ''qw'', ''ty_m'']) < 6"
    by simp
  have y: "yaw_radians example_q2y annotations_example = Inr (TensorV (Tensor [2] [Num 2, Num 10]))"
    by code_simp
  from as_tensor_yaw_short_ordering[OF wf e s] y
  have "effective_ordering YAW [''tx_m'', ''qw'', ''ty_m''] = [''tx_m'', ''ty_m'', ''yaw'']
     \<and> select_last 2 (Tensor [2, 3] [Num 10, Num 11, Num 2, Num 20, Num 21, Num 10])
       = tensor_type example_cast torch_float32 (Tensor [2] [Num 2, Num 10])"
    by auto
  with wf e s y show ?thesis by blast
qed

section \<open>Names that are no attribute\<close>

lemma annotations_dict_keys: "map fst (annotations_dict self) = annotations_fields"
  by (simp add: annotations_dict_def annotations_fields_def)

lemma lidar_dict_keys: "map fst (lidar_dict self) = lidar_fields"
  by (simp add: lidar_dict_def lidar_fields_def)

lemma annotations_dict_None:
  "map_of (annotations_dict self) name = None \<longleftrightarrow> name \<notin> set annotations_fields"
proof -
  have "fst ` set (annotations_dict self) = set annotations_fields"
    using arg_cong[OF annotations_dict_keys, of set self] by simp
  then show ?thesis by (simp add: map_of_eq_None_iff)
qed

lemma lidar_dict_None:
  "map_of (lidar_dict self) name = None \<longleftrightarrow> name \<notin> set lidar_fields"
proof -
  have "fst ` set (lidar_dict self) = set lidar_fields"
    using arg_cong[OF lidar_dict_keys, of set self] by simp
  then show ?thesis by (simp add: map_of_eq_None_iff)
qed

lemma annotations_field_unknown:
  assumes "name \<noteq> ''yaw''" and "\<not> annotations_hasattr inh name"
  shows "annotations_field q2y inh self name = Inl (AttributeError name)"
proof -
  from assms(2) have "name \<notin> set annotations_fields" "name \<noteq> ''quaternion''"
      "name \<noteq> ''yaw_radians''" "name \<noteq> ''from_dataframe''" "name \<noteq> ''as_tensor''" "\<not> inh name"
    by (auto simp: annotations_hasattr_def)
  moreover from this(1) have "map_of (annotations_dict self) name = None"
    by (simp add: annotations_dict_None)
  ultimately show ?thesis
    using assms(1) by (simp add: annotations_field_def annotations_getattr_def)
qed

lemma annotations_field_known:
  assumes "name = ''yaw'' \<or> annotations_hasattr inh name" and "quaternion self = Inr q"
  shows "\<exists>v. annotations_field q2y inh self name = Inr v"
proof (cases "map_of (annotations_dict self) name")
  case None
  then have "name \<notin> set annotations_fields" by (simp add: annotations_dict_None)
  with assms None show ?thesis
    by (auto simp: annotations_field_def annotations_getattr_def yaw_radians_def
        annotations_hasattr_def)
next
  case (Some v)
  with assms(2) show ?thesis
    by (auto simp: annotations_field_def annotations_getattr_def yaw_radians_def)
qed

lemma lidar_getattr_unknown:
  assumes "\<not> lidar_hasattr inh name"
  shows "lidar_getattr inh self name = Inl (AttributeError name)"
proof -
  from assms have "name \<notin> set lidar_fields"
      "name \<noteq> ''from_dataframe''" "name \<noteq> ''as_tensor''" "\<not> inh name"
    by (auto simp: lidar_hasattr_def)
  moreover from this(1) have "map_of (lidar_dict self) name = None"
    by (simp add: lidar_dict_None)
  ultimately show ?thesis
    by (simp add: lidar_getattr_def)
qed

lemma lidar_getattr_known:
  assumes "lidar_hasattr inh name"
  shows "\<exists>v. lidar_getattr inh self name = Inr v"
proof (cases "map_of (lidar_dict self) name")
  case None
  then have "name \<notin> set lidar_fields" by (simp add: lidar_dict_None)
  with assms None show ?thesis
    by (auto simp: lidar_getattr_def lidar_hasattr_def)
next
  case (Some v)
  then show ?thesis by (simp add: lidar_getattr_def)
qed

lemma unknown_in_effective_ordering:
  assumes "name \<in> set fo" and "\<not> annotations_hasattr inh name"
  shows "name \<in> set (effective_ordering om fo)"
proof (cases om)
  case QUATERNION_WXYZ
  with assms(1) show ?thesis by (simp add: effective_ordering_def)
next
  case YAW
  from assms(2) have "name \<notin> set [''qw'', ''qx'', ''qy'', ''qz'']"
    by (auto simp: annotations_hasattr_def annotations_fields_def)
  with assms(1) have "name \<in> set (filter (\<lambda>n. n \<notin> set [''qw'', ''qx'', ''qy'', ''qz'']) fo)"
    by simp
  then have "name \<in> set (take 6 (filter (\<lambda>n. n \<notin> set [''qw'', ''qx'', ''qy'', ''qz'']) fo))
      \<union> set (drop 6 (filter (\<lambda>n. n \<notin> set [''qw'', ''qx'', ''qy'', ''qz'']) fo))"
    by (subst set_append[symmetric]) (simp only: append_take_drop_id)
  with YAW show ?thesis
    by (auto simp: effective_ordering_def yaw_ordering_def list_insert_def)
qed

lemma find_Some_ex: "n \<in> set ns \<Longrightarrow> P n \<Longrightarrow> \<exists>m. find P ns = Some m"
  by (cases "find P ns") (auto simp: find_None_iff)

text \<open>
  Claim C6, as amended. When \<open>field_ordering\<close> holds a name that is neither an attribute
  of the container nor the synthetic \<open>yaw\<close>, \<open>as_tensor\<close> never returns an array. For
  \<open>Lidar\<close> the error is the attribute-lookup error of the first unknown name. For
  \<open>Annotations\<close> it is the attribute-lookup error of the first unknown name of the
  effective ordering whenever the derived \<open>quaternion\<close> can be computed; the names are
  looked up in order, so a derived property that raises comes first otherwise.
\<close>

theorem as_tensor_unknown_field:
  "(name \<in> set field_ordering \<and> name \<noteq> ''yaw'' \<and> \<not> annotations_hasattr inh name \<longrightarrow>
      (\<exists>e. annotations_as_tensor q2y cast inh self field_ordering orientation_mode dt = Inl e)
      \<and> ((\<exists>q. quaternion self = Inr q) \<longrightarrow>
           (\<exists>m. find (\<lambda>n. n \<noteq> ''yaw'' \<and> \<not> annotations_hasattr inh n)
                    (effective_ordering orientation_mode field_ordering) = Some m
              \<and> annotations_as_tensor q2y cast inh self field_ordering orientation_mode dt
                  = Inl (AttributeError m))))
   \<and> (name \<in> set field_ordering \<and> \<not> lidar_hasattr inh name \<longrightarrow>
        (\<exists>m. find (\<lambda>n. \<not> lidar_hasattr inh n) field_ordering = Some m
           \<and> lidar_as_tensor cast inh l field_ordering dt = Inl (AttributeError m)))"
proof (intro conjI impI)
  assume a: "name \<in> set field_ordering \<and> name \<noteq> ''yaw'' \<and> \<not> annotations_hasattr inh name"
  define eff where "eff = effective_ordering orientation_mode field_ordering"
  from a have mem: "name \<in> set eff"
    unfolding eff_def by (intro unknown_in_effective_ordering) auto
  have exp: "annotations_as_tensor q2y cast inh self field_ordering orientation_mode dt = Inl e"
    if "sequence (map (annotations_field q2y inh self) eff) = Inl e" for e
    using that by (simp add: annotations_as_tensor_def effective_ordering_def eff_def Let_def)
  from a have "annotations_field q2y inh self name = Inl (AttributeError name)"
    by (intro annotations_field_unknown) auto
  with mem have "\<exists>r\<in>set (map (annotations_field q2y inh self) eff). isl r"
    by force
  from sequence_Inl_ex[OF this] exp
  show "\<exists>e. annotations_as_tensor q2y cast inh self field_ordering orientation_mode dt = Inl e"
    by blast
  show "\<exists>m. find (\<lambda>n. n \<noteq> ''yaw'' \<and> \<not> annotations_hasattr inh n)
                    (effective_ordering orientation_mode field_ordering) = Some m
              \<and> annotations_as_tensor q2y cast inh self field_ordering orientation_mode dt
                  = Inl (AttributeError m)"
    if "\<exists>q. quaternion self = Inr q"
  proof -
    from that obtain q where q: "quaternion self = Inr q" by blast
    from mem a obtain m where m: "find (\<lambda>n. n \<noteq> ''yaw'' \<and> \<not> annotations_hasattr inh n) eff = Some m"
      using find_Some_ex[of name eff "\<lambda>n. n \<noteq> ''yaw'' \<and> \<not> annotations_hasattr inh n"] by blast
    then have m': "find (\<lambda>n. \<not> (n = ''yaw'' \<or> annotations_hasattr inh n)) eff = Some m"
      by simp
    have "sequence (map (annotations_field q2y inh self) eff) = Inl (AttributeError m)"
    proof (rule sequence_first_error[where P = "\<lambda>n. n = ''yaw'' \<or> annotations_hasattr inh n", OF _ _ m'])
      fix n assume "n = ''yaw'' \<or> annotations_hasattr inh n"
      then show "\<exists>v. annotations_field q2y inh self n = Inr v"
        using q by (rule annotations_field_known)
    next
      fix n assume "\<not> (n = ''yaw'' \<or> annotations_hasattr inh n)"
      then show "annotations_field q2y inh self n = Inl (AttributeError n)"
        by (intro annotations_field_unknown) auto
    qed
    with exp m show ?thesis unfolding eff_def by blast
  qed
next
  assume a: "name \<in> set field_ordering \<and> \<not> lidar_hasattr inh name"
  then obtain m where m: "find (\<lambda>n. \<not> lidar_hasattr inh n) field_ordering = Some m"
    using find_Some_ex[of name field_ordering "\<lambda>n. \<not> lidar_hasattr inh n"] by blast
  have "sequence (map (lidar_getattr inh l) field_ordering) = Inl (AttributeError m)"
  proof (rule sequence_first_error[where P = "lidar_hasattr inh", OF _ _ m])
    fix n assume "lidar_hasattr inh n"
    then show "\<exists>v. lidar_getattr inh l n = Inr v" by (rule lidar_getattr_known)
  next
    fix n assume "\<not> lidar_hasattr inh n"
    then show "lidar_getattr inh l n = Inl (AttributeError n)" by (rule lidar_getattr_unknown)
  qed
  then have "lidar_as_tensor cast inh l field_ordering dt = Inl (AttributeError m)"
    by (simp add: lidar_as_tensor_def)
  with m show "\<exists>m. find (\<lambda>n. \<not> lidar_hasattr inh n) field_ordering = Some m
           \<and> lidar_as_tensor cast inh l field_ordering dt = Inl (AttributeError m)"
    by blast
qed


theorem as_tensor_unknown_field_witness:
  "''speed'' \<in> set [''tx_m'', ''speed'', ''ty_m''] \<and> ''speed'' \<noteq> ''yaw''
   \<and> \<not> annotations_hasattr example_inherited ''speed''
   \<and> quaternion annotations_example
       = Inr (Tensor [2, 4] [Num 1, Num 0, Num 0, Num 1, Num 2, Num 1, Num 3, Num 1])
   \<and> annotations_as_tensor example_q2y example_cast example_inherited annotations_example
        [''tx_m'', ''speed'', ''ty_m''] YAW torch_float32 = Inl (AttributeError ''speed'')
   \<and> \<not> lidar_hasattr example_inherited ''speed''
   \<and> lidar_as_tensor example_cast example_inherited lidar_example
        [''tx_m'', ''speed'', ''ty_m''] torch_float32 = Inl (AttributeError ''tx_m'')"
proof -
  have h1: "''speed'' \<in> set [''tx_m'', ''speed'', ''ty_m''] \<and> ''speed'' \<noteq> ''yaw''
      \<and> \<not> annotations_hasattr example_inherited ''speed''"
    by code_simp
  have h2: "quaternion annotations_example
       = Inr (Tensor [2, 4] [Num 1, Num 0, Num 0, Num 1, Num 2, Num 1, Num 3, Num 1])"
    by code_simp
  have h3: "''speed'' \<in> set [''tx_m'', ''speed'', ''ty_m'']
      \<and> \<not> lidar_hasattr example_inherited ''speed''"
    by code_simp
  have f1: "find (\<lambda>n. n \<noteq> ''yaw'' \<and> \<not> annotations_hasattr example_inherited n)
      (effective_ordering YAW [''tx_m'', ''speed'', ''ty_m'']) = Some ''speed''"
    by code_simp
  have f2: "find (\<lambda>n. \<not> lidar_hasattr example_inherited n) [''tx_m'', ''speed'', ''ty_m'']
      = Some ''tx_m''"
    by code_simp
  note t = as_tensor_unknown_field[where name = "''speed''"
      and field_ordering = "[''tx_m'', ''speed'', ''ty_m'']" and inh = example_inherited
      and ?q2y = example_q2y and cast = example_cast and self = annotations_example
      and orientation_mode = YAW and dt = torch_float32 and l = lidar_example]
  from t h1 h2 f1 have r1: "annotations_as_tensor example_q2y example_cast example_inherited
        annotations_example [''tx_m'', ''speed'', ''ty_m''] YAW torch_float32
      = Inl (AttributeError ''speed'')"
    by auto
  from t h3 f2 have r2: "lidar_as_tensor example_cast example_inherited lidar_example
        [''tx_m'', ''speed'', ''ty_m''] torch_float32 = Inl (AttributeError ''tx_m'')"
    by auto
  from h1 h2 h3 r1 r2 show ?thesis by blast
qed

theorem as_tensor_unknown_field_counterexample:
  "annotations_from_dataframe int_quaternion_table = Inr int_quaternion_example
   \<and> ''speed'' \<in> set (DEFAULT_ANNOTATIONS_TENSOR_FIELDS @ [''speed''])
   \<and> \<not> annotations_hasattr example_inherited ''speed''
   \<and> annotations_as_tensor example_q2y example_cast example_inherited int_quaternion_example
        (DEFAULT_ANNOTATIONS_TENSOR_FIELDS @ [''speed'']) YAW torch_float32 = Inl StackTypeError"
proof -
  have a: "annotations_from_dataframe int_quaternion_table = Inr int_quaternion_example"
    by code_simp
  have b: "''speed'' \<in> set (DEFAULT_ANNOTATIONS_TENSOR_FIELDS @ [''speed''])"
    by simp
  have c: "\<not> annotations_hasattr example_inherited ''speed''"
    by code_simp
  have d: "annotations_as_tensor example_q2y example_cast example_inherited int_quaternion_example
        (DEFAULT_ANNOTATIONS_TENSOR_FIELDS @ [''speed'']) YAW torch_float32 = Inl StackTypeError"
    by code_simp
  from a b c d show ?thesis by blast
qed

section \<open>Yaw derived from an exported quaternion\<close>

lemma annotations_field_quaternion_fields:
  "annotations_field q2y inh self ''qw'' = Inr (qw self)"
  "annotations_field q2y inh self ''qx'' = Inr (qx self)"
  "annotations_field q2y inh self ''qy'' = Inr (qy self)"
  "annotations_field q2y inh self ''qz'' = Inr (qz self)"
  by (simp_all add: annotations_field_def annotations_getattr_def annotations_dict_def)

lemma yaw_radians_ok:
  assumes "qw self = TensorV tw" "qx self = TensorV ti" "qy self = TensorV tj"
    "qz self = TensorV tk" "shape ti = shape tw" "shape tj = shape tw" "shape tk = shape tw"
  shows "yaw_radians q2y self = Inr (TensorV (Tensor (shape tw)
            (map (\<lambda>r. q2y [data tw ! r, data ti ! r, data tj ! r, data tk ! r])
               [0..<prod_list (shape tw)])))"
  by (simp add: yaw_radians_def quaternion_ok[OF assms] quat_to_yaw_stacked)

lemma yaw_ordering_set: "set (yaw_ordering fo) \<subseteq> insert ''yaw'' (set fo)"
proof -
  have "set (take 6 (filter (\<lambda>n. n \<notin> set [''qw'', ''qx'', ''qy'', ''qz'']) fo))
      \<subseteq> set fo"
    using set_take_subset[of 6 "filter (\<lambda>n. n \<notin> set [''qw'', ''qx'', ''qy'', ''qz'']) fo"]
    by auto
  moreover have "set (drop 6 (filter (\<lambda>n. n \<notin> set [''qw'', ''qx'', ''qy'', ''qz'']) fo))
      \<subseteq> set fo"
    using set_drop_subset[of 6 "filter (\<lambda>n. n \<notin> set [''qw'', ''qx'', ''qy'', ''qz'']) fo"]
    by auto
  ultimately show ?thesis
    by (auto simp: yaw_ordering_def list_insert_def)
qed

lemma yaw_from_exported_columns:
  assumes "select_last iw Q = Tensor s (map g (data tw))"
    and "select_last ix Q = Tensor s (map g (data ti))"
    and "select_last iy Q = Tensor s (map g (data tj))"
    and "select_last iz Q = Tensor s (map g (data tk))"
    and "length (data tw) = prod_list s" "length (data ti) = prod_list s"
    and "length (data tj) = prod_list s" "length (data tk) = prod_list s"
  shows "yaw_from_exported q2y Q iw ix iy iz
     = Inr (Tensor s (map (\<lambda>r. q2y [g (data tw ! r), g (data ti ! r), g (data tj ! r), g (data tk ! r)])
               [0..<prod_list s]))"
proof -
  have "stack_tensors [select_last iw Q, select_last ix Q, select_last iy Q, select_last iz Q]
      = Inr (Tensor (s @ [4]) (concat (map (\<lambda>r.
            [map g (data tw) ! r, map g (data ti) ! r, map g (data tj) ! r, map g (data tk) ! r])
          [0..<prod_list s])))"
    by (simp add: assms(1-4) stack_tensors_def)
  moreover have "map (\<lambda>r. q2y [map g (data tw) ! r, map g (data ti) ! r,
                             map g (data tj) ! r, map g (data tk) ! r]) [0..<prod_list s]
      = map (\<lambda>r. q2y [g (data tw ! r), g (data ti ! r), g (data tj ! r), g (data tk ! r)])
          [0..<prod_list s]"
    using assms(5-8) by (intro map_cong refl) simp
  ultimately show ?thesis
    by (simp add: yaw_from_exported_def quat_to_yaw_stacked)
qed

lemma yaw_ordering_index:
  "min 6 (length (filter (\<lambda>n. n \<notin> {''qw'', ''qx'', ''qy'', ''qz''}) fo)) < length (yaw_ordering fo)
   \<and> yaw_ordering fo ! min 6 (length (filter (\<lambda>n. n \<notin> {''qw'', ''qx'', ''qy'', ''qz''}) fo)) = ''yaw''
   \<and> length (yaw_ordering fo) = length (filter (\<lambda>n. n \<notin> {''qw'', ''qx'', ''qy'', ''qz''}) fo) + 1"
proof -
  define flt where "flt = filter (\<lambda>n. n \<notin> {''qw'', ''qx'', ''qy'', ''qz''}) fo"
  have l: "length (take 6 flt) = min 6 (length flt)" by simp
  have "(take 6 flt @ ''yaw'' # drop 6 flt) ! length (take 6 flt) = ''yaw''"
    by (rule nth_append_length)
  then have "(take 6 flt @ ''yaw'' # drop 6 flt) ! min 6 (length flt) = ''yaw''"
    unfolding l .
  moreover have "length (take 6 flt @ ''yaw'' # drop 6 flt) = length flt + 1"
    by simp
  ultimately show ?thesis
    unfolding yaw_ordering_eq flt_def[symmetric] by simp
qed

text \<open>
  Claim C8, as amended. Let \<open>field_ordering\<close> hold \<open>qw\<close>, \<open>qx\<close>, \<open>qy\<close>, \<open>qz\<close> at the
  indices \<open>iw\<close>, \<open>ix\<close>, \<open>iy\<close>, \<open>iz\<close>, and let the export in \<open>QUATERNION_WXYZ\<close> mode return
  \<open>Q\<close>. Then the four quaternion fields are tensors, the export in \<open>YAW\<close> mode returns
  an array with one column for each name left after removing the quaternion fields and
  one more, and its column at index 6, or at the end when fewer than six names are left,
  is the cast of the conversion of the stored quaternions. The yaw derived from the
  quaternion columns of \<open>Q\<close> is the conversion of the cast quaternions. The two agree
  exactly when the cast changes no value; a cast that loses digits is applied before the
  conversion in the one and after it in the other, and they can differ.
\<close>

theorem orientation_equivalence:
  assumes wf: "wf_annotations self"
    and q: "annotations_as_tensor q2y cast inh self field_ordering QUATERNION_WXYZ dt
              = Inr (Q :: 'a tensor)"
    and iw: "iw < length field_ordering" "field_ordering ! iw = ''qw''"
    and ix: "ix < length field_ordering" "field_ordering ! ix = ''qx''"
    and iy: "iy < length field_ordering" "field_ordering ! iy = ''qy''"
    and iz: "iz < length field_ordering" "field_ordering ! iz = ''qz''"
  shows "\<exists>tw ti tj tk Y.
        qw self = TensorV tw \<and> qx self = TensorV ti \<and> qy self = TensorV tj \<and> qz self = TensorV tk
      \<and> annotations_as_tensor q2y cast inh self field_ordering YAW dt = Inr Y
      \<and> last (shape Y)
          = length (filter (\<lambda>n. n \<notin> {''qw'', ''qx'', ''qy'', ''qz''}) field_ordering) + 1
      \<and> select_last (min 6 (length (filter (\<lambda>n. n \<notin> {''qw'', ''qx'', ''qy'', ''qz''}) field_ordering))) Y
          = Tensor (shape tw)
              (map (\<lambda>r. cast dt (q2y [data tw ! r, data ti ! r, data tj ! r, data tk ! r]))
                 [0..<prod_list (shape tw)])
      \<and> yaw_from_exported q2y Q iw ix iy iz
          = Inr (Tensor (shape tw)
              (map (\<lambda>r. q2y [cast dt (data tw ! r), cast dt (data ti ! r),
                              cast dt (data tj ! r), cast dt (data tk ! r)])
                 [0..<prod_list (shape tw)]))
      \<and> ((\<forall>v. cast dt v = v) \<longrightarrow>
            yaw_from_exported q2y Q iw ix iy iz
              = Inr (select_last
                  (min 6 (length (filter (\<lambda>n. n \<notin> {''qw'', ''qx'', ''qy'', ''qz''}) field_ordering))) Y))"
proof -
  define c where "c = min 6 (length (filter (\<lambda>n. n \<notin> {''qw'', ''qx'', ''qy'', ''qz''}) field_ordering))"
  have effq: "effective_ordering QUATERNION_WXYZ field_ordering = field_ordering"
    by (simp add: effective_ordering_def)
  from annotations_as_tensor_Inr[OF q wf, unfolded effq]
  obtain s ts where f: "\<forall>j<length field_ordering.
            annotations_field q2y inh self (field_ordering ! j) = Inr (TensorV (ts ! j))
          \<and> shape (ts ! j) = s
          \<and> select_last j Q = tensor_type cast dt (ts ! j)"
    by blast
  define n where "n = prod_list s"
  have col: "j < length field_ordering \<Longrightarrow>
      annotations_field q2y inh self (field_ordering ! j) = Inr (TensorV (ts ! j))
      \<and> shape (ts ! j) = s \<and> length (data (ts ! j)) = n
      \<and> select_last j Q = Tensor s (map (cast dt) (data (ts ! j)))" for j
  proof -
    assume j: "j < length field_ordering"
    from f j have a: "annotations_field q2y inh self (field_ordering ! j) = Inr (TensorV (ts ! j))"
      and b: "shape (ts ! j) = s" and d: "select_last j Q = tensor_type cast dt (ts ! j)"
      by auto
    from annotations_field_wf[OF a wf] b have "length (data (ts ! j)) = n"
      by (simp add: wf_tensor_def n_def)
    with a b d show ?thesis by (simp add: tensor_type_def)
  qed
  define tw ti tj tk where "tw = ts ! iw" and "ti = ts ! ix" and "tj = ts ! iy" and "tk = ts ! iz"
  have fields: "qw self = TensorV tw" "qx self = TensorV ti" "qy self = TensorV tj"
      "qz self = TensorV tk"
    using col[OF iw(1)] col[OF ix(1)] col[OF iy(1)] col[OF iz(1)]
    by (simp_all add: iw(2) ix(2) iy(2) iz(2) annotations_field_quaternion_fields
        tw_def ti_def tj_def tk_def)
  have shapes: "shape tw = s" "shape ti = s" "shape tj = s" "shape tk = s"
    using col[OF iw(1)] col[OF ix(1)] col[OF iy(1)] col[OF iz(1)]
    by (simp_all add: tw_def ti_def tj_def tk_def)
  have lens: "length (data tw) = prod_list s" "length (data ti) = prod_list s"
      "length (data tj) = prod_list s" "length (data tk) = prod_list s"
    using col[OF iw(1)] col[OF ix(1)] col[OF iy(1)] col[OF iz(1)]
    by (simp_all add: tw_def ti_def tj_def tk_def n_def)
  have sels: "select_last iw Q = Tensor s (map (cast dt) (data tw))"
      "select_last ix Q = Tensor s (map (cast dt) (data ti))"
      "select_last iy Q = Tensor s (map (cast dt) (data tj))"
      "select_last iz Q = Tensor s (map (cast dt) (data tk))"
    using col[OF iw(1)] col[OF ix(1)] col[OF iy(1)] col[OF iz(1)]
    by (simp_all add: tw_def ti_def tj_def tk_def)
  define yawT where "yawT = Tensor s
      (map (\<lambda>r. q2y [data tw ! r, data ti ! r, data tj ! r, data tk ! r]) [0..<prod_list s])"
  have yaw: "yaw_radians q2y self = Inr (TensorV yawT)"
    using yaw_radians_ok[OF fields, of q2y] shapes by (simp add: yawT_def)
  define D where "D = Tensor s
      (map (\<lambda>r. q2y [cast dt (data tw ! r), cast dt (data ti ! r),
                      cast dt (data tj ! r), cast dt (data tk ! r)]) [0..<prod_list s])"
  have D: "yaw_from_exported q2y Q iw ix iy iz = Inr D"
    unfolding D_def by (rule yaw_from_exported_columns[OF sels lens])
  have "\<exists>t. annotations_field q2y inh self name = Inr (TensorV t) \<and> shape t = s"
    if "name \<in> set (yaw_ordering field_ordering)" for name
  proof (cases "name = ''yaw''")
    case True
    then show ?thesis using yaw by (simp add: annotations_field_def yawT_def)
  next
    case False
    with that yaw_ordering_set[of field_ordering] have "name \<in> set field_ordering" by auto
    then obtain j where "j < length field_ordering" "field_ordering ! j = name"
      by (auto simp: in_set_conv_nth)
    with col[of j] show ?thesis by auto
  qed
  moreover have "yaw_ordering field_ordering \<noteq> []"
    by (simp add: yaw_ordering_def list_insert_def)
  ultimately obtain vs S
    where "sequence (map (annotations_field q2y inh self) (yaw_ordering field_ordering)) = Inr vs"
      and "torch_stack vs = Inr S"
    using export_ok[of "yaw_ordering field_ordering" "annotations_field q2y inh self" s] by blast
  then have Y: "annotations_as_tensor q2y cast inh self field_ordering YAW dt
      = Inr (tensor_type cast dt S)"
    by (simp add: annotations_as_tensor_def)
  from yaw_ordering_index[of field_ordering]
  have cl: "c < length (yaw_ordering field_ordering)"
    and cy: "yaw_ordering field_ordering ! c = ''yaw''"
    and len: "length (yaw_ordering field_ordering)
        = length (filter (\<lambda>n. n \<notin> {''qw'', ''qx'', ''qy'', ''qz''}) field_ordering) + 1"
    by (simp_all add: c_def)
  from yaw_export[OF wf Y] yaw obtain s'
    where shY: "shape (tensor_type cast dt S) = s' @ [length (yaw_ordering field_ordering)]"
      and ycol: "\<forall>j<length (yaw_ordering field_ordering). yaw_ordering field_ordering ! j = ''yaw'' \<longrightarrow>
             select_last j (tensor_type cast dt S) = tensor_type cast dt yawT"
    by auto
  from ycol cl cy have selc: "select_last c (tensor_type cast dt S) = tensor_type cast dt yawT"
    by blast
  have y1: "select_last c (tensor_type cast dt S)
      = Tensor (shape tw)
          (map (\<lambda>r. cast dt (q2y [data tw ! r, data ti ! r, data tj ! r, data tk ! r]))
             [0..<prod_list (shape tw)])"
    unfolding selc by (simp add: tensor_type_def yawT_def shapes o_def)
  have y2: "last (shape (tensor_type cast dt S))
      = length (filter (\<lambda>n. n \<notin> {''qw'', ''qx'', ''qy'', ''qz''}) field_ordering) + 1"
    by (simp add: shY len)
  have d1: "yaw_from_exported q2y Q iw ix iy iz
      = Inr (Tensor (shape tw)
          (map (\<lambda>r. q2y [cast dt (data tw ! r), cast dt (data ti ! r),
                          cast dt (data tj ! r), cast dt (data tk ! r)])
             [0..<prod_list (shape tw)]))"
    by (simp add: D D_def shapes)
  have e: "yaw_from_exported q2y Q iw ix iy iz = Inr (select_last c (tensor_type cast dt S))"
    if "\<forall>v. cast dt v = v"
    using that by (simp add: d1 y1)
  from fields Y y2 y1 d1 e show ?thesis
    unfolding c_def by blast
qed

theorem orientation_equivalence_witness:
  "wf_annotations annotations_example
   \<and> annotations_as_tensor example_q2y example_cast example_inherited annotations_example
        DEFAULT_ANNOTATIONS_TENSOR_FIELDS QUATERNION_WXYZ torch_float32
       = Inr (Tensor [2, 13]
           [Num 10, Num 11, Num 12, Num 4, Num 2, Num 1, Num 1, Num 0, Num 0, Num 1,
            Num 7, Num 0, Num 0,
            Num 20, Num 21, Num 22, Num 5, Num 3, Num 2, Num 2, Num 1, Num 3, Num 1,
            Num 8, Num 1, Num 0])
   \<and> DEFAULT_ANNOTATIONS_TENSOR_FIELDS ! 6 = ''qw'' \<and> DEFAULT_ANNOTATIONS_TENSOR_FIELDS ! 7 = ''qx''
   \<and> DEFAULT_ANNOTATIONS_TENSOR_FIELDS ! 8 = ''qy'' \<and> DEFAULT_ANNOTATIONS_TENSOR_FIELDS ! 9 = ''qz''
   \<and> (\<forall>v. example_cast torch_float32 v = v)
   \<and> annotations_as_tensor example_q2y example_cast example_inherited annotations_example
        DEFAULT_ANNOTATIONS_TENSOR_FIELDS YAW torch_float32
       = Inr (Tensor [2, 10]
           [Num 10, Num 11, Num 12, Num 4, Num 2, Num 1, Num 2, Num 7, Num 0, Num 0,
            Num 20, Num 21, Num 22, Num 5, Num 3, Num 2, Num 10, Num 8, Num 1, Num 0])
   \<and> min 6 (length (filter (\<lambda>n. n \<notin> {''qw'', ''qx'', ''qy'', ''qz''})
        DEFAULT_ANNOTATIONS_TENSOR_FIELDS)) = 6
   \<and> yaw_from_exported example_q2y (Tensor [2, 13]
           [Num 10, Num 11, Num 12, Num 4, Num 2, Num 1, Num 1, Num 0, Num 0, Num 1,
            Num 7, Num 0, Num 0,
            Num 20, Num 21, Num 22, Num 5, Num 3, Num 2, Num 2, Num 1, Num 3, Num 1,
            Num 8, Num 1, Num 0]) 6 7 8 9
       = Inr (select_last 6 (Tensor [2, 10]
           [Num 10, Num 11, Num 12, Num 4, Num 2, Num 1, Num 2, Num 7, Num 0, Num 0,
            Num 20, Num 21, Num 22, Num 5, Num 3, Num 2, Num 10, Num 8, Num 1, Num 0]))
   \<and> select_last 6 (Tensor [2, 10]
           [Num 10, Num 11, Num 12, Num 4, Num 2, Num 1, Num 2, Num 7, Num 0, Num 0,
            Num 20, Num 21, Num 22, Num 5, Num 3, Num 2, Num 10, Num 8, Num 1, Num 0])
       = Tensor [2] [Num 2, Num 10]"
proof -
  have wf: "wf_annotations annotations_example" by code_simp
  have q: "annotations_as_tensor example_q2y example_cast example_inherited annotations_example
        DEFAULT_ANNOTATIONS_TENSOR_FIELDS QUATERNION_WXYZ torch_float32
       = Inr (Tensor [2, 13]
           [Num 10, Num 11, Num 12, Num 4, Num 2, Num 1, Num 1, Num 0, Num 0, Num 1,
            Num 7, Num 0, Num 0,
            Num 20, Num 21, Num 22, Num 5, Num 3, Num 2, Num 2, Num 1, Num 3, Num 1,
            Num 8, Num 1, Num 0])"
    by code_simp
  have i: "6 < length DEFAULT_ANNOTATIONS_TENSOR_FIELDS" "DEFAULT_ANNOTATIONS_TENSOR_FIELDS ! 6 = ''qw''"
      "7 < length DEFAULT_ANNOTATIONS_TENSOR_FIELDS" "DEFAULT_ANNOTATIONS_TENSOR_FIELDS ! 7 = ''qx''"
      "8 < length DEFAULT_ANNOTATIONS_TENSOR_FIELDS" "DEFAULT_ANNOTATIONS_TENSOR_FIELDS ! 8 = ''qy''"
      "9 < length DEFAULT_ANNOTATIONS_TENSOR_FIELDS" "DEFAULT_ANNOTATIONS_TENSOR_FIELDS ! 9 = ''qz''"
    by (simp_all add: DEFAULT_ANNOTATIONS_TENSOR_FIELDS_def)
  have t: "\<forall>v. example_cast torch_float32 v = v"
    by (simp add: example_cast_def)
  have y: "annotations_as_tensor example_q2y example_cast example_inherited annotations_example
        DEFAULT_ANNOTATIONS_TENSOR_FIELDS YAW torch_float32
       = Inr (Tensor [2, 10]
           [Num 10, Num 11, Num 12, Num 4, Num 2, Num 1, Num 2, Num 7, Num 0, Num 0,
            Num 20, Num 21, Num 22, Num 5, Num 3, Num 2, Num 10, Num 8, Num 1, Num 0])"
    by code_simp
  have m: "min 6 (length (filter (\<lambda>n. n \<notin> {''qw'', ''qx'', ''qy'', ''qz''})
        DEFAULT_ANNOTATIONS_TENSOR_FIELDS)) = 6"
    by (simp add: DEFAULT_ANNOTATIONS_TENSOR_FIELDS_def)
  have s6: "select_last 6 (Tensor [2, 10]
           [Num 10, Num 11, Num 12, Num 4, Num 2, Num 1, Num 2, Num 7, Num 0, Num 0,
            Num 20, Num 21, Num 22, Num 5, Num 3, Num 2, Num 10, Num 8, Num 1, Num 0])
       = Tensor [2] [Num 2, Num 10]"
    by code_simp
  from orientation_equivalence[OF wf q i] t
  have "yaw_from_exported example_q2y (Tensor [2, 13]
           [Num 10, Num 11, Num 12, Num 4, Num 2, Num 1, Num 1, Num 0, Num 0, Num 1,
            Num 7, Num 0, Num 0,
            Num 20, Num 21, Num 22, Num 5, Num 3, Num 2, Num 2, Num 1, Num 3, Num 1,
            Num 8, Num 1, Num 0]) 6 7 8 9
       = Inr (select_last 6 (Tensor [2, 10]
           [Num 10, Num 11, Num 12, Num 4, Num 2, Num 1, Num 2, Num 7, Num 0, Num 0,
            Num 20, Num 21, Num 22, Num 5, Num 3, Num 2, Num 10, Num 8, Num 1, Num 0]))"
    unfolding m y by auto
  with wf q i t y m s6 show ?thesis by blast
qed

text \<open>
  With the dtype \<open>torch_int32\<close> the exported quaternion \<open>(0.6, 0, 0, 0.8)\<close> is truncated
  to \<open>(0, 0, 0, 0)\<close>, whose yaw is 0, while the exported yaw is 1.855 truncated to 1.
\<close>

theorem orientation_equivalence_counterexample:
  "annotations_as_tensor milliradian_yaw truncating_cast example_inherited rotated_example
        [''qw'', ''qx'', ''qy'', ''qz''] QUATERNION_WXYZ torch_int32
     = Inr (Tensor [2, 4] [Num 0, Num 0, Num 0, Num 0, Num 1000, Num 0, Num 0, Num 0])
   \<and> yaw_from_exported milliradian_yaw
        (Tensor [2, 4] [Num 0, Num 0, Num 0, Num 0, Num 1000, Num 0, Num 0, Num 0]) 0 1 2 3
     = Inr (Tensor [2] [Num 0, Num 0])
   \<and> annotations_as_tensor milliradian_yaw truncating_cast example_inherited rotated_example
        [''qw'', ''qx'', ''qy'', ''qz''] YAW torch_int32
     = Inr (Tensor [2, 1] [Num 1000, Num 0])
   \<and> select_last 0 (Tensor [2, 1] [Num 1000, Num 0]) = Tensor [2] [Num 1000, Num 0]"
proof -
  have a: "annotations_as_tensor milliradian_yaw truncating_cast example_inherited rotated_example
        [''qw'', ''qx'', ''qy'', ''qz''] QUATERNION_WXYZ torch_int32
     = Inr (Tensor [2, 4] [Num 0, Num 0, Num 0, Num 0, Num 1000, Num 0, Num 0, Num 0])"
    by code_simp
  have b: "yaw_from_exported milliradian_yaw
        (Tensor [2, 4] [Num 0, Num 0, Num 0, Num 0, Num 1000, Num 0, Num 0, Num 0]) 0 1 2 3
     = Inr (Tensor [2] [Num 0, Num 0])"
    by code_simp
  have c: "annotations_as_tensor milliradian_yaw truncating_cast example_inherited rotated_example
        [''qw'', ''qx'', ''qy'', ''qz''] YAW torch_int32
     = Inr (Tensor [2, 1] [Num 1000, Num 0])"
    by code_simp
  have d: "select_last 0 (Tensor [2, 1] [Num 1000, Num 0]) = Tensor [2] [Num 1000, Num 0]"
    by code_simp
  from a b c d show ?thesis by blast
qed

section \<open>The shape of an export\<close>

lemma attr_rows_wf: "attr_rows N v \<Longrightarrow> wf_attr v"
  by (cases v) (auto simp: wf_tensor_def)

lemma annotations_rows_wf: "annotations_rows N self \<Longrightarrow> wf_annotations self"
  by (auto simp: annotations_rows_def wf_annotations_def list_all_iff dest: attr_rows_wf)

lemma lidar_rows_wf: "lidar_rows N self \<Longrightarrow> wf_lidar self"
  by (auto simp: lidar_rows_def wf_lidar_def list_all_iff dest: attr_rows_wf)

lemma annotations_rows_field:
  assumes "annotations_rows N self" and "map_of (annotations_dict self) name = Some (TensorV t)"
  shows "shape t = [N]"
proof -
  from assms(2) have "(name, TensorV t) \<in> set (annotations_dict self)" by (rule map_of_SomeD)
  with assms(1) show ?thesis by (auto simp: annotations_rows_def list_all_iff)
qed

lemma annotations_rows_shape:
  assumes rows: "annotations_rows N self"
    and f: "annotations_field q2y inh self name = Inr (TensorV t)"
    and nq: "name \<noteq> ''quaternion''"
  shows "shape t = [N]"
proof -
  consider (yaw) "yaw_radians q2y self = Inr (TensorV t)"
    | (field) "map_of (annotations_dict self) name = Some (TensorV t)"
    using f nq
    by (auto simp: annotations_field_def annotations_getattr_def
        split: if_splits sum.splits option.splits)
  then show ?thesis
  proof cases
    case yaw
    from yaw_radians_Inr[OF yaw] obtain tw where "qw self = TensorV tw" "shape t = shape tw"
      by auto
    moreover from this(1) have "map_of (annotations_dict self) ''qw'' = Some (TensorV tw)"
      by (simp add: annotations_dict_def)
    ultimately show ?thesis using annotations_rows_field[OF rows] by simp
  next
    case field
    with rows show ?thesis by (rule annotations_rows_field)
  qed
qed

lemma lidar_rows_shape:
  assumes rows: "lidar_rows N self"
    and f: "lidar_getattr inh self name = Inr (TensorV t)"
  shows "shape t = [N]"
proof -
  from f have "map_of (lidar_dict self) name = Some (TensorV t)"
    by (auto simp: lidar_getattr_def split: option.splits if_splits)
  then have "(name, TensorV t) \<in> set (lidar_dict self)" by (rule map_of_SomeD)
  with rows show ?thesis by (auto simp: lidar_rows_def list_all_iff)
qed

lemma effective_ordering_set:
  "set (effective_ordering om fo) \<subseteq> insert ''yaw'' (set fo)"
  using yaw_ordering_set[of fo] by (auto simp: effective_ordering_def)

text \<open>
  The shape of a successful export of a container with \<open>N\<close> rows: \<open>N\<close> by the length of
  the effective ordering, for \<open>Lidar\<close> and for every \<open>Annotations\<close> ordering that does not
  name the derived attribute \<open>quaternion\<close>.
\<close>

lemma as_tensor_shape_law:
  "(annotations_rows N self \<and> ''quaternion'' \<notin> set field_ordering
      \<and> annotations_as_tensor q2y cast inh self field_ordering orientation_mode dt = Inr (T :: 'a tensor)
      \<longrightarrow> shape T = [N, length (effective_ordering orientation_mode field_ordering)])
   \<and> (lidar_rows N l \<and> lidar_as_tensor cast inh l field_ordering dt = Inr (T' :: 'a tensor)
      \<longrightarrow> shape T' = [N, length field_ordering])"
proof (intro conjI impI)
  assume a: "annotations_rows N self \<and> ''quaternion'' \<notin> set field_ordering
      \<and> annotations_as_tensor q2y cast inh self field_ordering orientation_mode dt = Inr T"
  define eff where "eff = effective_ordering orientation_mode field_ordering"
  from a have rows: "annotations_rows N self" and nq: "''quaternion'' \<notin> set field_ordering"
    and ok: "annotations_as_tensor q2y cast inh self field_ordering orientation_mode dt = Inr T"
    by auto
  from annotations_as_tensor_Inr[OF ok annotations_rows_wf[OF rows], folded eff_def]
  obtain s ts where ne: "eff \<noteq> []"
    and f: "\<forall>j<length eff. annotations_field q2y inh self (eff ! j) = Inr (TensorV (ts ! j))
          \<and> shape (ts ! j) = s \<and> select_last j T = tensor_type cast dt (ts ! j)"
    and sh: "shape T = s @ [length eff]"
    by blast
  from ne have z: "0 < length eff" by simp
  then have "eff ! 0 \<in> set eff" by (rule nth_mem)
  with effective_ordering_set[of orientation_mode field_ordering] nq
  have "eff ! 0 \<noteq> ''quaternion''" by (auto simp: eff_def)
  with f z annotations_rows_shape[OF rows, of q2y inh "eff ! 0" "ts ! 0"]
  have "s = [N]" by auto
  with sh show "shape T = [N, length (effective_ordering orientation_mode field_ordering)]"
    by (simp add: eff_def)
next
  assume a: "lidar_rows N l \<and> lidar_as_tensor cast inh l field_ordering dt = Inr T'"
  then have rows: "lidar_rows N l" and ok: "lidar_as_tensor cast inh l field_ordering dt = Inr T'"
    by auto
  from lidar_as_tensor_Inr[OF ok lidar_rows_wf[OF rows]]
  obtain s ts where ne: "field_ordering \<noteq> []"
    and f: "\<forall>j<length field_ordering. lidar_getattr inh l (field_ordering ! j) = Inr (TensorV (ts ! j))
          \<and> shape (ts ! j) = s \<and> select_last j T' = tensor_type cast dt (ts ! j)"
    and sh: "shape T' = s @ [length field_ordering]"
    by blast
  from ne have z: "0 < length field_ordering" by simp
  with f lidar_rows_shape[OF rows, of inh "field_ordering ! 0" "ts ! 0"]
  have "s = [N]" by auto
  with sh show "shape T' = [N, length field_ordering]" by simp
qed

text \<open>
  Claim C5. The docstring of \<open>as_tensor\<close> promises an \<open>(N, K)\<close> tensor, \<open>K\<close> the number
  of features. The ordering that names only the derived attribute \<open>quaternion\<close> is
  exported without error in \<open>QUATERNION_WXYZ\<close> mode: \<open>getattr\<close> returns the stacked
  \<open>(N, 4)\<close> quaternion, and stacking this single field along a new last axis gives a
  three-dimensional tensor of shape \<open>(N, 4, 1)\<close>, not \<open>(N, 1)\<close>. Here \<open>N = 2\<close>.
\<close>

theorem as_tensor_quaternion_attribute_shape:
  "annotations_rows 2 annotations_example
   \<and> effective_ordering QUATERNION_WXYZ [''quaternion''] = [''quaternion'']
   \<and> annotations_as_tensor example_q2y example_cast example_inherited annotations_example
        [''quaternion''] QUATERNION_WXYZ torch_float32
       = Inr (Tensor [2, 4, 1] [Num 1, Num 0, Num 0, Num 1, Num 2, Num 1, Num 3, Num 1])"
proof -
  have a: "annotations_rows 2 annotations_example" by code_simp
  have b: "effective_ordering QUATERNION_WXYZ [''quaternion''] = [''quaternion'']"
    by (simp add: effective_ordering_def)
  have c: "annotations_as_tensor example_q2y example_cast example_inherited annotations_example
        [''quaternion''] QUATERNION_WXYZ torch_float32
       = Inr (Tensor [2, 4, 1] [Num 1, Num 0, Num 0, Num 1, Num 2, Num 1, Num 3, Num 1])"
    by code_simp
  from a b c show ?thesis by blast
qed

end
